theory Spec2Isabelle
  imports Main "HOL-Library.Word"
begin

unbundle bit_operations_syntax

section \<open>The data transfer unit of \<open>src/mem/dtu/dtu.cc\<close>\<close>

text \<open>
  A shallow embedding of the class \<open>Dtu\<close>. The constant members set by the constructor
  are the record \<open>Params\<close>; the members that change are the record \<open>Dtu\<close>; every
  member function takes the parameters and the state and returns the state it leaves
  behind. An \<open>assert\<close> that fails and a \<open>panic\<close> stop the simulation: they are the
  outcome \<open>Panic e s\<close>, where \<open>s\<close> is the state reached when the simulation stopped and
  \<open>e\<close> is the name the specification gives to the failure. Assertions are modelled as
  compiled in.
\<close>

subsection \<open>Machine types\<close>

text \<open>
  \<open>Addr\<close> and \<open>RegFile::reg_t\<close> are 64-bit unsigned integers, \<open>unsigned\<close> is 32 bits
  wide. \<open>Tick\<close> and \<open>Cycles\<close> are natural numbers: nothing
  proved below depends on a clock value overflowing.
\<close>

type_synonym reg_t = "64 word"
type_synonym Addr = "64 word"
type_synonym unsigned = "32 word"
type_synonym Tick = nat
type_synonym Cycles = nat

subsection \<open>The register file\<close>

datatype DtuReg = COMMAND | STATUS

datatype EpReg =
    MODE
  | MESSAGE_ADDR
  | MESSAGE_SIZE
  | BUFFER_ADDR
  | BUFFER_SIZE
  | BUFFER_READ_PTR
  | BUFFER_WRITE_PTR
  | BUFFER_MESSAGE_COUNT
  | TARGET_COREID
  | TARGET_EPID

text \<open>
  Modelled from the spec: the class \<open>RegFile\<close> (the register store of section 6), whose
  source is not part of \<open>dtu.cc\<close>. It is a store keyed by the register name, and by the
  endpoint for the endpoint registers; a read returns the value written last.
\<close>

record RegFile =
  dtuRegs :: "DtuReg \<Rightarrow> reg_t"
  epRegs :: "unsigned \<Rightarrow> EpReg \<Rightarrow> reg_t"

definition readDtuReg :: "RegFile \<Rightarrow> DtuReg \<Rightarrow> reg_t" where
  "readDtuReg rf r = dtuRegs rf r"

definition setDtuReg :: "DtuReg \<Rightarrow> reg_t \<Rightarrow> RegFile \<Rightarrow> RegFile" where
  "setDtuReg r v rf = rf\<lparr>dtuRegs := (dtuRegs rf)(r := v)\<rparr>"

definition readEpReg :: "RegFile \<Rightarrow> unsigned \<Rightarrow> EpReg \<Rightarrow> reg_t" where
  "readEpReg rf ep r = epRegs rf ep r"

definition setEpReg :: "unsigned \<Rightarrow> EpReg \<Rightarrow> reg_t \<Rightarrow> RegFile \<Rightarrow> RegFile" where
  "setEpReg ep r v rf = rf\<lparr>epRegs := (epRegs rf)(ep := (epRegs rf ep)(r := v))\<rparr>"

subsection \<open>The command register\<close>

text \<open>
  \<open>Command\<close> keeps the opcode as the number that \<open>static_cast\<close> leaves in the
  enumeration.
\<close>

record Command =
  opcode :: reg_t
  epId :: unsigned
  offset :: reg_t

text \<open>
  Modelled from the spec: the enumerators of \<open>CommandOpcode\<close> and of \<open>EpMode\<close>, which are
  declared in headers that are not among the sources. They are numbered from zero in the
  order in which sections 4.2 and 3 of the specification list them.
\<close>

definition IDLE :: reg_t where "IDLE = 0"
definition START_OPERATION :: reg_t where "START_OPERATION = 1"
definition INC_READ_PTR :: reg_t where "INC_READ_PTR = 2"

definition RECEIVE_MESSAGE :: reg_t where "RECEIVE_MESSAGE = 0"
definition TRANSMIT_MESSAGE :: reg_t where "TRANSMIT_MESSAGE = 1"

text \<open>
  The three masks of \<open>getCommand\<close> are computed in \<open>int\<close>, since the literal \<open>1\<close> is an
  \<open>int\<close>, and converted to \<open>reg_t\<close> afterwards, which extends the sign. \<open>intMask n\<close> is
  \<open>(1 << n) - 1\<close> in 32 bits. A shift by 32 bits or more is undefined in the source; the
  widths used below stay under it. The three widths are natural numbers.
\<close>

definition intMask :: "nat \<Rightarrow> 32 word" where
  "intMask n = push_bit n 1 - 1"

definition opcodeMask :: "nat \<Rightarrow> reg_t" where
  "opcodeMask opBits = scast (intMask opBits)"

definition epidMask :: "nat \<Rightarrow> nat \<Rightarrow> reg_t" where
  "epidMask opBits epBits = scast (push_bit opBits (intMask epBits))"

definition offsetMask :: "nat \<Rightarrow> nat \<Rightarrow> nat \<Rightarrow> reg_t" where
  "offsetMask opBits epBits offBits = scast (push_bit (opBits + epBits) (intMask offBits))"

text \<open>
  \<open>decodeCommand\<close> is the body of \<open>getCommand\<close> after the register has been read. The
  endpoint field is shifted down by \<open>numCmdEpidBits\<close>, as the source has it.
\<close>

definition decodeCommand :: "nat \<Rightarrow> nat \<Rightarrow> nat \<Rightarrow> reg_t \<Rightarrow> Command" where
  "decodeCommand opBits epBits offBits reg =
     \<lparr>opcode = reg AND opcodeMask opBits,
      epId = ucast (drop_bit epBits (reg AND epidMask opBits epBits)),
      offset = drop_bit (epBits + opBits) (reg AND offsetMask opBits epBits offBits)\<rparr>"

text \<open>
  The layout drawn in the comment of \<open>getCommand\<close> and stated in section 4.1 of the
  specification: the opcode in the low bits, the endpoint above it, the offset above
  both.
\<close>

definition encodeCommand :: "nat \<Rightarrow> nat \<Rightarrow> Command \<Rightarrow> reg_t" where
  "encodeCommand opBits epBits cmd =
     opcode cmd OR push_bit opBits (ucast (epId cmd)) OR push_bit (opBits + epBits) (offset cmd)"

subsection \<open>Packets and the tags they carry\<close>

text \<open>
  Modelled from the spec: \<open>Packet\<close>, \<open>Request\<close> and \<open>MemCmd\<close> belong to the memory system of
  the simulator, and the two sender states and \<open>MessageHeader\<close> are declared in the
  header of the unit; none of them is among the sources. A packet is the fields that
  \<open>dtu.cc\<close> reads and writes. A request stores its size as an \<open>unsigned\<close>. The stack of
  sender states is a list with the top at the head. A read request and a write response
  carry no data, a write request and a read response do.
\<close>

datatype MemCmd = ReadReq | ReadResp | WriteReq | WriteResp

datatype SenderState =
    SpmSenderState (tagEpId: unsigned) (isLocalRequest: bool) (isForwardedRequest: bool)
  | NocSenderState (isMessage: bool) (isMemoryRequest: bool)

record Packet =
  cmd :: MemCmd
  getAddr :: Addr
  getSize :: unsigned
  pktData :: "8 word list"
  isError :: bool
  senderState :: "SenderState list"
  headerDelay :: Tick
  payloadDelay :: Tick

definition isResponse :: "Packet \<Rightarrow> bool" where
  "isResponse pkt = (cmd pkt = ReadResp \<or> cmd pkt = WriteResp)"

definition isRead :: "Packet \<Rightarrow> bool" where
  "isRead pkt = (cmd pkt = ReadReq \<or> cmd pkt = ReadResp)"

definition isWrite :: "Packet \<Rightarrow> bool" where
  "isWrite pkt = (cmd pkt = WriteReq \<or> cmd pkt = WriteResp)"

definition hasData :: "Packet \<Rightarrow> bool" where
  "hasData pkt = (cmd pkt = WriteReq \<or> cmd pkt = ReadResp)"

definition pushSenderState :: "SenderState \<Rightarrow> Packet \<Rightarrow> Packet" where
  "pushSenderState t pkt = pkt\<lparr>senderState := t # senderState pkt\<rparr>"

definition makeResponse :: "Packet \<Rightarrow> Packet" where
  "makeResponse pkt =
     pkt\<lparr>cmd := (case cmd pkt of ReadReq \<Rightarrow> ReadResp | WriteReq \<Rightarrow> WriteResp | c \<Rightarrow> c)\<rparr>"

text \<open>
  Modelled from the spec: \<open>MessageHeader\<close>, which section 6 of the specification gives as
  four bytes: the core, the endpoint and the length in two bytes. \<open>memcpy\<close> copies it into
  the frame in the byte order of the host (least significant byte first).
\<close>

datatype MessageHeader =
  MessageHeader (hdrCoreId: "8 word") (hdrEpId: "8 word") (hdrLength: "16 word")

definition sizeofMessageHeader :: Addr where
  "sizeofMessageHeader = 4"

definition headerBytes :: "MessageHeader \<Rightarrow> 8 word list" where
  "headerBytes h =
     [hdrCoreId h, hdrEpId h, ucast (hdrLength h), ucast (drop_bit 8 (hdrLength h))]"

subsection \<open>Parameters, state and outcomes\<close>

text \<open>
  \<open>Params\<close> holds the constant members of the unit. \<open>numCmdOpcodeBits\<close>, \<open>coreId\<close>,
  \<open>cpuBaseAddr\<close> and \<open>nocEpAddrBits\<close> are declared outside \<open>dtu.cc\<close>; so are the
  functions \<open>ticksToCycles\<close>, \<open>getNocAddr\<close> and \<open>RegFile::handleRequest\<close>, which are taken
  as parameters: the theorems hold for every choice of them. \<open>regFileHandleRequest\<close>
  returns whether the command register was written, the packet as the register file
  leaves it, and the register file.
\<close>

record Params =
  atomicMode :: bool
  numEndpoints :: unsigned
  maxMessageSize :: Addr
  numCmdOpcodeBits :: nat
  numCmdEpidBits :: nat
  numCmdOffsetBits :: nat
  registerAccessLatency :: Cycles
  commandToSpmRequestLatency :: Cycles
  spmResponseToNocRequestLatency :: Cycles
  nocRequestToSpmRequestLatency :: Cycles
  spmResponseToNocResponseLatency :: Cycles
  coreId :: unsigned
  cpuBaseAddr :: Addr
  nocEpAddrBits :: nat
  ticksToCycles :: "Tick \<Rightarrow> Cycles"
  getNocAddr :: "unsigned \<Rightarrow> unsigned \<Rightarrow> Addr"
  regFileHandleRequest :: "Packet \<Rightarrow> RegFile \<Rightarrow> bool \<times> Packet \<times> RegFile"

text \<open>
  The state is the register file, the scratchpad behind the unit, and what the unit has
  handed to its collaborators: the requests issued to the scratchpad and to the network,
  the responses scheduled for the network and for the core, and the events scheduled on
  the event queue. A request is recorded with \<open>Atomic\<close> when it was performed at once and
  with \<open>ClockEdge c\<close> when it was scheduled for the tick \<open>clockEdge(c)\<close>; responses and
  events are recorded with the argument \<open>c\<close> of \<open>clockEdge(c)\<close>. An event stays in
  \<open>eventQueue\<close> until it is serviced.
\<close>

datatype Event = ExecuteCommandEvent | FinishMessageTransmissionEvent | IncrementWritePtrEvent

datatype When = Atomic | ClockEdge Cycles

record Dtu =
  regFile :: RegFile
  scratchpad :: "Addr \<Rightarrow> 8 word"
  spmRequests :: "(Packet \<times> When) list"
  nocRequests :: "(Packet \<times> When) list"
  nocResponses :: "(Packet \<times> Cycles) list"
  cpuResponses :: "(Packet \<times> Cycles) list"
  eventQueue :: "(Event \<times> Cycles) list"
  incrementWritePtrEvent_epId :: unsigned

datatype DtuError =
    InvalidOpcode
  | EndpointOutOfRange
  | InvalidEndpointMode
  | EmptyMessage
  | MessageTooLarge
  | BufferOverflow
  | BufferUnderflow
  | Unsupported
  | AssertionFailed

datatype Result = Done Dtu | Panic DtuError Dtu

subsection \<open>The collaborators of the base class\<close>

text \<open>
  Modelled from the spec: the timed transport of section 6, implemented by the base class
  \<open>BaseDtu\<close> and the event queue, which are not among the sources. Scheduling appends to
  the matching list. An atomic scratchpad access is performed at once: a read fills the
  packet with the bytes stored at its address, a write stores the packet's bytes, and the
  packet becomes the response. An atomic network request is handed to the network and
  comes back as the response.
\<close>

fun readBytes :: "(Addr \<Rightarrow> 8 word) \<Rightarrow> Addr \<Rightarrow> nat \<Rightarrow> 8 word list" where
  "readBytes m a 0 = []"
| "readBytes m a (Suc n) = m a # readBytes m (a + 1) n"

fun writeBytes :: "(Addr \<Rightarrow> 8 word) \<Rightarrow> Addr \<Rightarrow> 8 word list \<Rightarrow> (Addr \<Rightarrow> 8 word)" where
  "writeBytes m a [] = m"
| "writeBytes m a (b # bs) = writeBytes (m(a := b)) (a + 1) bs"

definition schedule :: "Event \<Rightarrow> Cycles \<Rightarrow> Dtu \<Rightarrow> Dtu" where
  "schedule ev c s = s\<lparr>eventQueue := eventQueue s @ [(ev, c)]\<rparr>"

definition schedSpmRequest :: "Packet \<Rightarrow> Cycles \<Rightarrow> Dtu \<Rightarrow> Dtu" where
  "schedSpmRequest pkt c s = s\<lparr>spmRequests := spmRequests s @ [(pkt, ClockEdge c)]\<rparr>"

definition schedNocRequest :: "Packet \<Rightarrow> Cycles \<Rightarrow> Dtu \<Rightarrow> Dtu" where
  "schedNocRequest pkt c s = s\<lparr>nocRequests := nocRequests s @ [(pkt, ClockEdge c)]\<rparr>"

definition schedNocResponse :: "Packet \<Rightarrow> Cycles \<Rightarrow> Dtu \<Rightarrow> Dtu" where
  "schedNocResponse pkt c s = s\<lparr>nocResponses := nocResponses s @ [(pkt, c)]\<rparr>"

definition schedCpuResponse :: "Packet \<Rightarrow> Cycles \<Rightarrow> Dtu \<Rightarrow> Dtu" where
  "schedCpuResponse pkt c s = s\<lparr>cpuResponses := cpuResponses s @ [(pkt, c)]\<rparr>"

definition sendAtomicSpmRequest :: "Packet \<Rightarrow> Dtu \<Rightarrow> Packet \<times> Dtu" where
  "sendAtomicSpmRequest pkt s =
     (let s1 = s\<lparr>spmRequests := spmRequests s @ [(pkt, Atomic)]\<rparr> in
      if cmd pkt = ReadReq then
        (makeResponse (pkt\<lparr>pktData := readBytes (scratchpad s) (getAddr pkt) (unat (getSize pkt))\<rparr>),
         s1)
      else if cmd pkt = WriteReq then
        (makeResponse pkt,
         s1\<lparr>scratchpad :=
              writeBytes (scratchpad s) (getAddr pkt) (take (unat (getSize pkt)) (pktData pkt))\<rparr>)
      else (pkt, s1))"

definition sendAtomicNocRequest :: "Packet \<Rightarrow> Dtu \<Rightarrow> Packet \<times> Dtu" where
  "sendAtomicNocRequest pkt s =
     (makeResponse pkt, s\<lparr>nocRequests := nocRequests s @ [(pkt, Atomic)]\<rparr>)"

subsection \<open>The member functions of \<open>Dtu\<close>\<close>

text \<open>
  \<open>generateRequest\<close> first asserts that the three fields of the command fit the register;
  \<open>generateRequestOk\<close> is that assertion. The buffer of the new packet is not
  initialised by the source; the model fills it with zero bytes, and every use overwrites
  them before they are read.
\<close>

definition generateRequestOk :: "Params \<Rightarrow> bool" where
  "generateRequestOk p = (numCmdEpidBits p + numCmdOffsetBits p + numCmdOpcodeBits p \<le> 64)"

definition generateRequest :: "Addr \<Rightarrow> Addr \<Rightarrow> MemCmd \<Rightarrow> Packet" where
  "generateRequest paddr sz c =
     \<lparr>cmd = c, getAddr = paddr, getSize = ucast sz, pktData = replicate (unat sz) 0,
      isError = False, senderState = [], headerDelay = 0, payloadDelay = 0\<rparr>"

definition getCommand :: "Params \<Rightarrow> Dtu \<Rightarrow> Command" where
  "getCommand p s =
     decodeCommand (numCmdOpcodeBits p) (numCmdEpidBits p) (numCmdOffsetBits p)
       (readDtuReg (regFile s) COMMAND)"

definition finishMessageTransmission :: "Dtu \<Rightarrow> Dtu" where
  "finishMessageTransmission s =
     s\<lparr>regFile := setDtuReg STATUS 0 (setDtuReg COMMAND 0 (regFile s))\<rparr>"

definition incrementReadPtr :: "Params \<Rightarrow> unsigned \<Rightarrow> Dtu \<Rightarrow> Result" where
  "incrementReadPtr p ep s =
     (let readPtr = readEpReg (regFile s) ep BUFFER_READ_PTR;
          bufferAddr = readEpReg (regFile s) ep BUFFER_ADDR;
          bufferSize = readEpReg (regFile s) ep BUFFER_SIZE;
          messageCount = readEpReg (regFile s) ep BUFFER_MESSAGE_COUNT
      in if \<not> messageCount \<noteq> 0 then Panic BufferUnderflow s
         else
           let readPtr1 = readPtr + maxMessageSize p;
               readPtr2 = (if readPtr1 \<ge> bufferAddr + bufferSize * maxMessageSize p
                           then bufferAddr else readPtr1)
           in Done (s\<lparr>regFile :=
                        setEpReg ep BUFFER_MESSAGE_COUNT (messageCount - 1)
                          (setEpReg ep BUFFER_READ_PTR readPtr2 (regFile s))\<rparr>))"

definition incrementWritePtr :: "Params \<Rightarrow> unsigned \<Rightarrow> Dtu \<Rightarrow> Result" where
  "incrementWritePtr p ep s =
     (let writePtr = readEpReg (regFile s) ep BUFFER_WRITE_PTR;
          bufferAddr = readEpReg (regFile s) ep BUFFER_ADDR;
          bufferSize = readEpReg (regFile s) ep BUFFER_SIZE;
          messageCount = readEpReg (regFile s) ep BUFFER_MESSAGE_COUNT
      in if \<not> messageCount < bufferSize then Panic BufferOverflow s
         else
           let writePtr1 = writePtr + maxMessageSize p;
               writePtr2 = (if writePtr1 \<ge> bufferAddr + bufferSize * maxMessageSize p
                            then bufferAddr else writePtr1)
           in Done (s\<lparr>regFile :=
                        setEpReg ep BUFFER_MESSAGE_COUNT (messageCount + 1)
                          (setEpReg ep BUFFER_WRITE_PTR writePtr2 (regFile s))\<rparr>))"

definition completeNocRequest :: "Params \<Rightarrow> Packet \<Rightarrow> Dtu \<Rightarrow> Result" where
  "completeNocRequest p pkt s =
     (let delay = ticksToCycles p (headerDelay pkt + payloadDelay pkt)
      in Done (schedule FinishMessageTransmissionEvent delay s))"

definition completeLocalSpmRequest :: "Params \<Rightarrow> Packet \<Rightarrow> Dtu \<Rightarrow> Result" where
  "completeLocalSpmRequest p pkt s =
     (if \<not> isRead pkt then Panic AssertionFailed s
      else
        let epid = epId (getCommand p s);
            targetCoreId = (ucast (readEpReg (regFile s) epid TARGET_COREID) :: unsigned);
            targetEpId = (ucast (readEpReg (regFile s) epid TARGET_EPID) :: unsigned);
            messageSize = (ucast (readEpReg (regFile s) epid MESSAGE_SIZE) :: unsigned)
        in if \<not> getSize pkt = messageSize then Panic AssertionFailed s
           else if \<not> generateRequestOk p then Panic AssertionFailed s
           else
             let header = MessageHeader (ucast (coreId p)) (ucast epid) (ucast messageSize);
                 nocPkt0 = generateRequest (getNocAddr p targetCoreId targetEpId)
                             (ucast messageSize + sizeofMessageHeader) WriteReq;
                 nocPkt1 = nocPkt0\<lparr>pktData :=
                             headerBytes header @ take (unat messageSize) (pktData pkt)\<rparr>;
                 pktHeaderDelay = headerDelay pkt;
                 nocPkt2 = nocPkt1\<lparr>payloadDelay := payloadDelay pkt\<rparr>;
                 nocPkt = pushSenderState (NocSenderState True False) nocPkt2
             in if atomicMode p then
                  (case sendAtomicNocRequest nocPkt s of
                     (nocPkt', s1) \<Rightarrow> completeNocRequest p nocPkt' s1)
                else
                  let delay = spmResponseToNocRequestLatency p
                                + ticksToCycles p pktHeaderDelay
                  in Done (schedNocRequest nocPkt delay s))"

definition completeForwardedSpmRequest :: "Params \<Rightarrow> Packet \<Rightarrow> unsigned \<Rightarrow> Dtu \<Rightarrow> Result" where
  "completeForwardedSpmRequest p pkt ep s =
     (if \<not> isWrite pkt then Panic AssertionFailed s
      else if atomicMode p then incrementWritePtr p ep s
      else
        let delay = ticksToCycles p (headerDelay pkt + payloadDelay pkt)
                      + spmResponseToNocResponseLatency p;
            pkt1 = pkt\<lparr>headerDelay := 0, payloadDelay := 0\<rparr>;
            s1 = s\<lparr>incrementWritePtrEvent_epId := ep\<rparr>;
            s2 = schedule IncrementWritePtrEvent delay s1
        in Done (schedNocResponse pkt1 delay s2))"

text \<open>
  \<open>popSenderState\<close> takes the top tag off the packet; a packet without a tag, or with a
  tag of the other class (for which \<open>dynamic_cast\<close> gives a null pointer), stops the
  simulation.
\<close>

definition completeSpmRequest :: "Params \<Rightarrow> Packet \<Rightarrow> Dtu \<Rightarrow> Result" where
  "completeSpmRequest p pkt s =
     (if \<not> \<not> isError pkt then Panic AssertionFailed s
      else if \<not> isResponse pkt then Panic AssertionFailed s
      else
        case senderState pkt of
          [] \<Rightarrow> Panic AssertionFailed s
        | NocSenderState m r # rest \<Rightarrow> Panic AssertionFailed s
        | SpmSenderState ep loc fwd # rest \<Rightarrow>
            let pkt1 = pkt\<lparr>senderState := rest\<rparr>
            in if \<not> (loc \<or> fwd) then Panic AssertionFailed s
               else if \<not> \<not> (loc \<and> fwd) then Panic AssertionFailed s
               else if loc then completeLocalSpmRequest p pkt1 s
               else completeForwardedSpmRequest p pkt1 ep s)"

definition startMessageTransmission :: "Params \<Rightarrow> unsigned \<Rightarrow> Dtu \<Rightarrow> Result" where
  "startMessageTransmission p ep s =
     (let messageAddr = readEpReg (regFile s) ep MESSAGE_ADDR;
          messageSize = readEpReg (regFile s) ep MESSAGE_SIZE
      in if \<not> messageSize > 0 then Panic EmptyMessage s
         else if \<not> messageSize + sizeofMessageHeader < maxMessageSize p
           then Panic MessageTooLarge s
         else
           let s1 = s\<lparr>regFile := setDtuReg STATUS 1 (regFile s)\<rparr>
           in if \<not> generateRequestOk p then Panic AssertionFailed s1
              else
                let pkt0 = generateRequest messageAddr messageSize ReadReq;
                    pkt = pushSenderState (SpmSenderState ep True False) pkt0
                in if atomicMode p then
                     (case sendAtomicSpmRequest pkt s1 of
                        (pkt', s2) \<Rightarrow> completeSpmRequest p pkt' s2)
                   else Done (schedSpmRequest pkt (commandToSpmRequestLatency p) s1))"

definition startOperation :: "Params \<Rightarrow> Command \<Rightarrow> Dtu \<Rightarrow> Result" where
  "startOperation p c s =
     (let mode = readEpReg (regFile s) (epId c) MODE
      in if mode = RECEIVE_MESSAGE then Panic InvalidEndpointMode s
         else if mode = TRANSMIT_MESSAGE then startMessageTransmission p (epId c) s
         else Panic InvalidEndpointMode s)"

definition executeCommand :: "Params \<Rightarrow> Dtu \<Rightarrow> Result" where
  "executeCommand p s =
     (let c = getCommand p s
      in if \<not> epId c < numEndpoints p then Panic EndpointOutOfRange s
         else if opcode c = IDLE then Done s
         else if opcode c = START_OPERATION then startOperation p c s
         else if opcode c = INC_READ_PTR then incrementReadPtr p (epId c) s
         else Panic InvalidOpcode s)"

definition recvNocMemoryRequest :: "Params \<Rightarrow> Packet \<Rightarrow> Dtu \<Rightarrow> Result" where
  "recvNocMemoryRequest p pkt s = Panic Unsupported s"

definition recvNocMessage :: "Params \<Rightarrow> Packet \<Rightarrow> Dtu \<Rightarrow> Result" where
  "recvNocMessage p pkt s =
     (let ep = (ucast (getAddr pkt AND (push_bit (nocEpAddrBits p) 1 - 1)) :: unsigned);
          messageCount = (ucast (readEpReg (regFile s) ep BUFFER_MESSAGE_COUNT) :: unsigned);
          bufferSize = (ucast (readEpReg (regFile s) ep BUFFER_SIZE) :: unsigned)
      in if messageCount = bufferSize then Panic BufferOverflow s
         else
           let spmAddr = readEpReg (regFile s) ep BUFFER_WRITE_PTR;
               pkt1 = pkt\<lparr>getAddr := spmAddr\<rparr>;
               pkt2 = pushSenderState (SpmSenderState ep False True) pkt1
           in if atomicMode p then
                (case sendAtomicSpmRequest pkt2 s of
                   (pkt', s1) \<Rightarrow> completeSpmRequest p pkt' s1)
              else
                let delay = ticksToCycles p (headerDelay pkt2)
                              + nocRequestToSpmRequestLatency p;
                    pkt3 = pkt2\<lparr>headerDelay := 0\<rparr>
                in Done (schedSpmRequest pkt3 delay s))"

definition handleNocRequest :: "Params \<Rightarrow> Packet \<Rightarrow> Dtu \<Rightarrow> Result" where
  "handleNocRequest p pkt s =
     (if \<not> \<not> isError pkt then Panic AssertionFailed s
      else if \<not> isWrite pkt then Panic AssertionFailed s
      else if \<not> hasData pkt then Panic AssertionFailed s
      else
        case senderState pkt of
          [] \<Rightarrow> Panic AssertionFailed s
        | SpmSenderState ep loc fwd # rest \<Rightarrow> Panic AssertionFailed s
        | NocSenderState m r # rest \<Rightarrow>
            let pkt1 = pkt\<lparr>senderState := rest\<rparr>
            in if \<not> (m \<or> r) then Panic AssertionFailed s
               else if \<not> \<not> (m \<and> r) then Panic AssertionFailed s
               else if m then recvNocMessage p pkt1 s
               else recvNocMemoryRequest p pkt1 s)"

text \<open>
  \<open>handleCpuRequest\<close> changes the packet it is given; the model returns the packet as the
  caller sees it afterwards, next to the outcome.
\<close>

definition handleCpuRequest :: "Params \<Rightarrow> Packet \<Rightarrow> Dtu \<Rightarrow> Packet \<times> Result" where
  "handleCpuRequest p pkt s =
     (let origAddr = getAddr pkt;
          pkt1 = pkt\<lparr>getAddr := origAddr - cpuBaseAddr p\<rparr>
      in case regFileHandleRequest p pkt1 (regFile s) of
           (commandWritten, pkt2, rf) \<Rightarrow>
             let s1 = s\<lparr>regFile := rf\<rparr>;
                 pkt3 = pkt2\<lparr>getAddr := origAddr\<rparr>
             in if \<not> atomicMode p then
                  let transportDelay = ticksToCycles p (headerDelay pkt3 + payloadDelay pkt3);
                      when = transportDelay + registerAccessLatency p;
                      pkt4 = pkt3\<lparr>headerDelay := 0, payloadDelay := 0\<rparr>;
                      s2 = schedCpuResponse pkt4 when s1
                  in (pkt4, Done (if commandWritten then schedule ExecuteCommandEvent when s2
                                  else s2))
                else if commandWritten then (pkt3, executeCommand p s1)
                else (pkt3, Done s1))"

text \<open>
  Modelled from the spec: the three event classes are declared in the header of the unit,
  which is not among the sources. Each event runs the member function it is named after;
  the write pointer event carries the endpoint stored in it when it was scheduled.
  \<open>serviceEvent\<close> takes the event scheduled first off the queue and runs it.
\<close>

definition processEvent :: "Params \<Rightarrow> Event \<Rightarrow> Dtu \<Rightarrow> Result" where
  "processEvent p ev s =
     (case ev of
        ExecuteCommandEvent \<Rightarrow> executeCommand p s
      | FinishMessageTransmissionEvent \<Rightarrow> Done (finishMessageTransmission s)
      | IncrementWritePtrEvent \<Rightarrow> incrementWritePtr p (incrementWritePtrEvent_epId s) s)"

definition serviceEvent :: "Params \<Rightarrow> Dtu \<Rightarrow> Result" where
  "serviceEvent p s =
     (case eventQueue s of
        [] \<Rightarrow> Done s
      | (ev, c) # rest \<Rightarrow> processEvent p ev (s\<lparr>eventQueue := rest\<rparr>))"

subsection \<open>Runs of the ring buffer\<close>

text \<open>
  The producer of a receive buffer is \<open>incrementWritePtr\<close>, its consumer is
  \<open>incrementReadPtr\<close>. A run applies a list of such steps, each to the endpoint it
  names, and stops at the first step that stops the simulation. \<open>resultState\<close> is the
  state an outcome carries.
\<close>

datatype RingOp = Produce unsigned | Consume unsigned

definition applyRingOp :: "Params \<Rightarrow> RingOp \<Rightarrow> Dtu \<Rightarrow> Result" where
  "applyRingOp p op s =
     (case op of
        Produce ep \<Rightarrow> incrementWritePtr p ep s
      | Consume ep \<Rightarrow> incrementReadPtr p ep s)"

fun runRingOps :: "Params \<Rightarrow> RingOp list \<Rightarrow> Dtu \<Rightarrow> Result" where
  "runRingOps p [] s = Done s"
| "runRingOps p (op # ops) s =
     (case applyRingOp p op s of
        Done s' \<Rightarrow> runRingOps p ops s'
      | Panic e s' \<Rightarrow> Panic e s')"

definition resultState :: "Result \<Rightarrow> Dtu" where
  "resultState r = (case r of Done s \<Rightarrow> s | Panic e s \<Rightarrow> s)"

text \<open>
  The registers of the ring of an endpoint, by name. \<open>countInRange s ep\<close> says that the
  message count of the endpoint does not exceed the capacity of its buffer.
\<close>

definition messageCountOf :: "Dtu \<Rightarrow> unsigned \<Rightarrow> reg_t" where
  "messageCountOf s ep = readEpReg (regFile s) ep BUFFER_MESSAGE_COUNT"

definition bufferSizeOf :: "Dtu \<Rightarrow> unsigned \<Rightarrow> reg_t" where
  "bufferSizeOf s ep = readEpReg (regFile s) ep BUFFER_SIZE"

definition bufferAddrOf :: "Dtu \<Rightarrow> unsigned \<Rightarrow> reg_t" where
  "bufferAddrOf s ep = readEpReg (regFile s) ep BUFFER_ADDR"

definition readPtrOf :: "Dtu \<Rightarrow> unsigned \<Rightarrow> reg_t" where
  "readPtrOf s ep = readEpReg (regFile s) ep BUFFER_READ_PTR"

definition writePtrOf :: "Dtu \<Rightarrow> unsigned \<Rightarrow> reg_t" where
  "writePtrOf s ep = readEpReg (regFile s) ep BUFFER_WRITE_PTR"

definition countInRange :: "Dtu \<Rightarrow> unsigned \<Rightarrow> bool" where
  "countInRange s ep = (messageCountOf s ep \<le> bufferSizeOf s ep)"

subsection \<open>A configuration to run the model on\<close>

text \<open>
  The scenarios of section 8 of the specification need a configured unit. In
  \<open>scenarioParams\<close> the opcode field and the endpoint field of the command are both two
  bits wide, a slot of a receive buffer is 1024 bytes, and the unit runs in timed mode.
  \<open>sampleHandleRequest\<close> is a register store that maps the command register alone, at
  offset 0: a write there stores the bytes of the packet, least significant first.
\<close>

definition bytesToReg :: "8 word list \<Rightarrow> reg_t" where
  "bytesToReg bs = foldr (\<lambda>b acc. ucast b OR push_bit 8 acc) bs 0"

definition sampleHandleRequest :: "Packet \<Rightarrow> RegFile \<Rightarrow> bool \<times> Packet \<times> RegFile" where
  "sampleHandleRequest pkt rf =
     (if cmd pkt = WriteReq \<and> getAddr pkt = 0
      then (True, makeResponse pkt, setDtuReg COMMAND (bytesToReg (pktData pkt)) rf)
      else (False, makeResponse pkt, rf))"

definition scenarioParams :: Params where
  "scenarioParams =
     \<lparr>atomicMode = False, numEndpoints = 4, maxMessageSize = 1024,
      numCmdOpcodeBits = 2, numCmdEpidBits = 2, numCmdOffsetBits = 16,
      registerAccessLatency = 1, commandToSpmRequestLatency = 2,
      spmResponseToNocRequestLatency = 3, nocRequestToSpmRequestLatency = 4,
      spmResponseToNocResponseLatency = 5, coreId = 7, cpuBaseAddr = 0x10000000,
      nocEpAddrBits = 8, ticksToCycles = (\<lambda>t. (t + 999) div 1000),
      getNocAddr = (\<lambda>c e. push_bit 8 (ucast c) OR ucast e),
      regFileHandleRequest = sampleHandleRequest\<rparr>"

definition idleDtu :: Dtu where
  "idleDtu =
     \<lparr>regFile = \<lparr>dtuRegs = (\<lambda>r. 0), epRegs = (\<lambda>ep r. 0)\<rparr>,
      scratchpad = (\<lambda>a. 0), spmRequests = [], nocRequests = [], nocResponses = [],
      cpuResponses = [], eventQueue = [], incrementWritePtrEvent_epId = 0\<rparr>"

text \<open>
  \<open>receiveDtu n\<close>: endpoint 1 receives into a buffer of four slots at \<open>0x2000\<close> that
  holds \<open>n\<close> messages, with both pointers at the start of the buffer.
\<close>

definition receiveDtu :: "reg_t \<Rightarrow> Dtu" where
  "receiveDtu n =
     idleDtu\<lparr>regFile :=
       setEpReg 1 MODE RECEIVE_MESSAGE
         (setEpReg 1 BUFFER_ADDR 0x2000
           (setEpReg 1 BUFFER_SIZE 4
             (setEpReg 1 BUFFER_READ_PTR 0x2000
               (setEpReg 1 BUFFER_WRITE_PTR 0x2000
                 (setEpReg 1 BUFFER_MESSAGE_COUNT n (regFile idleDtu))))))\<rparr>"

text \<open>
  \<open>consumeDtu n\<close>: the unit of \<open>receiveDtu n\<close> after the core has written the command
  \<open>IncrementReadPtr\<close> for endpoint 1, which is \<open>2 | 1 << 2 = 6\<close>.
\<close>

definition consumeDtu :: "reg_t \<Rightarrow> Dtu" where
  "consumeDtu n = (receiveDtu n)\<lparr>regFile := setDtuReg COMMAND 6 (regFile (receiveDtu n))\<rparr>"

text \<open>
  \<open>transmitDtu sz\<close>: endpoint 2 transmits a message of \<open>sz\<close> bytes that lies at
  \<open>0x1000\<close> in the scratchpad to endpoint 1 of core 3, and the core has written the
  command \<open>StartOperation\<close> for endpoint 2, which is \<open>1 | 2 << 2 = 9\<close>.
\<close>

definition transmitDtu :: "reg_t \<Rightarrow> Dtu" where
  "transmitDtu sz =
     idleDtu\<lparr>regFile :=
       setDtuReg COMMAND 9
         (setEpReg 2 MODE TRANSMIT_MESSAGE
           (setEpReg 2 MESSAGE_ADDR 0x1000
             (setEpReg 2 MESSAGE_SIZE sz
               (setEpReg 2 TARGET_COREID 3
                 (setEpReg 2 TARGET_EPID 1 (regFile idleDtu))))))\<rparr>"

text \<open>The size of the message and the mode of an endpoint.\<close>

definition messageSizeOf :: "Dtu \<Rightarrow> unsigned \<Rightarrow> reg_t" where
  "messageSizeOf s ep = readEpReg (regFile s) ep MESSAGE_SIZE"

definition modeOf :: "Dtu \<Rightarrow> unsigned \<Rightarrow> reg_t" where
  "modeOf s ep = readEpReg (regFile s) ep MODE"

text \<open>
  \<open>nocEndpoint\<close> is the endpoint that \<open>recvNocMessage\<close> reads from the low bits of the
  address of an inbound frame. \<open>inboundFrame a bs\<close> is a message frame as the network
  delivers it: a write request for the address \<open>a\<close> that carries the bytes \<open>bs\<close> and the
  tag of a message.
\<close>

definition nocEndpoint :: "Params \<Rightarrow> Packet \<Rightarrow> unsigned" where
  "nocEndpoint p pkt = ucast (getAddr pkt AND (push_bit (nocEpAddrBits p) 1 - 1))"

definition inboundFrame :: "Addr \<Rightarrow> 8 word list \<Rightarrow> Packet" where
  "inboundFrame a bs =
     \<lparr>cmd = WriteReq, getAddr = a, getSize = of_nat (length bs), pktData = bs,
      isError = False, senderState = [NocSenderState True False], headerDelay = 0,
      payloadDelay = 0\<rparr>"

subsection \<open>The ring buffer of the specification\<close>

text \<open>
  \<open>advance\<close> follows the words of section 4.6 of the specification, with the slot size as
  its first argument; it is what the two pointer updates of the source are compared
  with. \<open>produceCount ep ops\<close> and \<open>consumeCount ep ops\<close> count the steps of a run that
  advance the write pointer and the read pointer of the endpoint \<open>ep\<close>.
  \<open>bufferFits p s ep\<close> says that the buffer of the endpoint ends inside the 64-bit
  address space.
\<close>

definition advance :: "Addr \<Rightarrow> Addr \<Rightarrow> Addr \<Rightarrow> Addr \<Rightarrow> Addr" where
  "advance slotSize ptr bufferAddr bufferSizeSlots =
     (let ptr' = ptr + slotSize
      in if ptr' \<ge> bufferAddr + bufferSizeSlots * slotSize then bufferAddr else ptr')"

definition produceCount :: "unsigned \<Rightarrow> RingOp list \<Rightarrow> nat" where
  "produceCount ep ops = length (filter (\<lambda>op. op = Produce ep) ops)"

definition consumeCount :: "unsigned \<Rightarrow> RingOp list \<Rightarrow> nat" where
  "consumeCount ep ops = length (filter (\<lambda>op. op = Consume ep) ops)"

definition bufferFits :: "Params \<Rightarrow> Dtu \<Rightarrow> unsigned \<Rightarrow> bool" where
  "bufferFits p s ep =
     (unat (bufferAddrOf s ep) + unat (bufferSizeOf s ep) * unat (maxMessageSize p) < 2 ^ 64)"

text \<open>
  \<open>atomicParams\<close> is the configuration of \<open>scenarioParams\<close> in atomic mode.
  \<open>cpuWrite a bs\<close> is a write of the bytes \<open>bs\<close> to the address \<open>a\<close> as it arrives from
  the core, with a transport delay of 1500 ticks.
\<close>

definition atomicParams :: Params where
  "atomicParams = scenarioParams\<lparr>atomicMode := True\<rparr>"

definition cpuWrite :: "Addr \<Rightarrow> 8 word list \<Rightarrow> Packet" where
  "cpuWrite a bs =
     \<lparr>cmd = WriteReq, getAddr = a, getSize = of_nat (length bs), pktData = bs,
      isError = False, senderState = [], headerDelay = 1000, payloadDelay = 500\<rparr>"

subsection \<open>The unit as a reactive system\<close>

text \<open>
  The unit is driven from outside through five entry points: a request of the core, a
  request from the network, the response of the scratchpad, the response of the network,
  and the event queue servicing the event that is due. \<open>trigger\<close> runs one of them.
\<close>

datatype Trigger =
    CpuRequest Packet
  | NocRequest Packet
  | SpmResponse Packet
  | NocResponse Packet
  | EventDue

definition trigger :: "Params \<Rightarrow> Trigger \<Rightarrow> Dtu \<Rightarrow> Result" where
  "trigger p t s =
     (case t of
        CpuRequest pkt \<Rightarrow> snd (handleCpuRequest p pkt s)
      | NocRequest pkt \<Rightarrow> handleNocRequest p pkt s
      | SpmResponse pkt \<Rightarrow> completeSpmRequest p pkt s
      | NocResponse pkt \<Rightarrow> completeNocRequest p pkt s
      | EventDue \<Rightarrow> serviceEvent p s)"

text \<open>
  A tag is exclusive when exactly one of its two flags is set. \<open>issuedTagsExclusive s\<close>
  says that every request the unit has issued to the scratchpad carries an exclusive
  scratchpad tag on top, and every request it has issued to the network an exclusive
  network tag.
\<close>

definition exactlyOne :: "bool \<Rightarrow> bool \<Rightarrow> bool" where
  "exactlyOne a b = ((a \<or> b) \<and> \<not> (a \<and> b))"

definition spmTagExclusive :: "Packet \<Rightarrow> bool" where
  "spmTagExclusive pkt =
     (case senderState pkt of
        SpmSenderState ep loc fwd # rest \<Rightarrow> exactlyOne loc fwd
      | _ \<Rightarrow> False)"

definition nocTagExclusive :: "Packet \<Rightarrow> bool" where
  "nocTagExclusive pkt =
     (case senderState pkt of
        NocSenderState m r # rest \<Rightarrow> exactlyOne m r
      | _ \<Rightarrow> False)"

definition issuedTagsExclusive :: "Dtu \<Rightarrow> bool" where
  "issuedTagsExclusive s =
     (list_all (\<lambda>x. spmTagExclusive (fst x)) (spmRequests s)
      \<and> list_all (\<lambda>x. nocTagExclusive (fst x)) (nocRequests s))"

text \<open>
  \<open>spmResponseTo req bs\<close> is the answer of the scratchpad to the read request \<open>req\<close> in
  timed mode: the same packet, turned into a response that carries the bytes \<open>bs\<close>.
\<close>

definition spmResponseTo :: "Packet \<Rightarrow> 8 word list \<Rightarrow> Packet" where
  "spmResponseTo req bs = makeResponse (req\<lparr>pktData := bs\<rparr>)"

subsection \<open>The transmit scenario\<close>

text \<open>
  The address of the message and the target of an endpoint, and the two registers of the
  unit. \<open>transmitReady p s ep\<close>: the command register holds \<open>StartOperation\<close> for the
  valid endpoint \<open>ep\<close>, the endpoint is configured to transmit, its message meets the two
  preconditions of a transmission, and the fields of the command fit the register.
\<close>

definition messageAddrOf :: "Dtu \<Rightarrow> unsigned \<Rightarrow> reg_t" where
  "messageAddrOf s ep = readEpReg (regFile s) ep MESSAGE_ADDR"

definition targetCoreIdOf :: "Dtu \<Rightarrow> unsigned \<Rightarrow> unsigned" where
  "targetCoreIdOf s ep = ucast (readEpReg (regFile s) ep TARGET_COREID)"

definition targetEpIdOf :: "Dtu \<Rightarrow> unsigned \<Rightarrow> unsigned" where
  "targetEpIdOf s ep = ucast (readEpReg (regFile s) ep TARGET_EPID)"

definition statusOf :: "Dtu \<Rightarrow> reg_t" where
  "statusOf s = readDtuReg (regFile s) STATUS"

definition commandOf :: "Dtu \<Rightarrow> reg_t" where
  "commandOf s = readDtuReg (regFile s) COMMAND"

definition transmitReady :: "Params \<Rightarrow> Dtu \<Rightarrow> unsigned \<Rightarrow> bool" where
  "transmitReady p s ep =
     (opcode (getCommand p s) = START_OPERATION \<and> epId (getCommand p s) = ep
      \<and> ep < numEndpoints p \<and> modeOf s ep = TRANSMIT_MESSAGE
      \<and> 0 < messageSizeOf s ep
      \<and> messageSizeOf s ep + sizeofMessageHeader < maxMessageSize p
      \<and> generateRequestOk p)"

section \<open>Theorems\<close>

text \<open>
  C1 (command round trip). With an opcode field of 2 bits, an endpoint field of 8 bits and
  an offset field of 16 bits, the triple \<open>{StartOperation, 3, 0}\<close> is the register value
  13. Decoding 13 gives endpoint 0, not 3: the endpoint field is shifted down by the width
  of the endpoint field, where the layout asks for the width of the opcode field. The
  same happens with an opcode field of 4 bits, where the triple is the register value 49.
  With an opcode field and an endpoint field of 2 bits each, the triple is 13 again and
  is decoded to itself.
\<close>

theorem getCommand_roundtrip_fails:
  "encodeCommand 2 8 \<lparr>opcode = START_OPERATION, epId = 3, offset = 0\<rparr> = 13
   \<and> decodeCommand 2 8 16 13 = \<lparr>opcode = START_OPERATION, epId = 0, offset = 0\<rparr>
   \<and> encodeCommand 4 8 \<lparr>opcode = START_OPERATION, epId = 3, offset = 0\<rparr> = 49
   \<and> decodeCommand 4 8 16 49 = \<lparr>opcode = START_OPERATION, epId = 0, offset = 0\<rparr>
   \<and> encodeCommand 2 2 \<lparr>opcode = START_OPERATION, epId = 3, offset = 0\<rparr> = 13
   \<and> decodeCommand 2 2 16 13 = \<lparr>opcode = START_OPERATION, epId = 3, offset = 0\<rparr>"
  by (simp add: encodeCommand_def decodeCommand_def opcodeMask_def epidMask_def
      offsetMask_def intMask_def START_OPERATION_def)

subsection \<open>Facts about registers and words\<close>

lemma readEpReg_setEpReg:
  "readEpReg (setEpReg ep r v rf) ep' r' =
     (if ep' = ep \<and> r' = r then v else readEpReg rf ep' r')"
  by (simp add: readEpReg_def setEpReg_def)

lemma word_inc_le: "(a::64 word) < b \<Longrightarrow> a + 1 \<le> b"
  by (simp add: inc_le)

lemma word_dec_le: "(a::64 word) \<le> b \<Longrightarrow> a \<noteq> 0 \<Longrightarrow> a - 1 \<le> b"
  by (simp add: word_le_nat_alt unat_minus_one)

lemma unat_word_inc: "(a::64 word) < b \<Longrightarrow> unat (a + 1) = unat a + 1"
  by (metis (mono_tags, lifting) add.commute add_cancel_left_left inc_i
      linorder_not_less plus_1_eq_Suc unatSuc unat_plus_simple unsigned_0 word_less_1)

lemma unat_word_dec: "(a::64 word) \<noteq> 0 \<Longrightarrow> unat a = unat (a - 1) + 1"
  by (simp add: unat_gt_0 unat_minus_one)

lemmas scenario_simps =
  receiveDtu_def idleDtu_def scenarioParams_def messageCountOf_def bufferSizeOf_def
  readEpReg_def setEpReg_def incrementWritePtr_def incrementReadPtr_def Let_def
  resultState_def

subsection \<open>The message count\<close>

lemma incrementWritePtr_count:
  assumes "incrementWritePtr p ep s = Done s'"
  shows "messageCountOf s ep < bufferSizeOf s ep
    \<and> messageCountOf s' e = (if e = ep then messageCountOf s ep + 1 else messageCountOf s e)
    \<and> bufferSizeOf s' e = bufferSizeOf s e"
  using assms
  by (auto simp: incrementWritePtr_def Let_def messageCountOf_def bufferSizeOf_def
      readEpReg_setEpReg split: if_splits)

lemma incrementReadPtr_count:
  assumes "incrementReadPtr p ep s = Done s'"
  shows "messageCountOf s ep \<noteq> 0
    \<and> messageCountOf s' e = (if e = ep then messageCountOf s ep - 1 else messageCountOf s e)
    \<and> bufferSizeOf s' e = bufferSizeOf s e"
  using assms
  by (auto simp: incrementReadPtr_def Let_def messageCountOf_def bufferSizeOf_def
      readEpReg_setEpReg split: if_splits)

lemma incrementWritePtr_Panic: "incrementWritePtr p ep s = Panic e s' \<Longrightarrow> s' = s"
  by (auto simp: incrementWritePtr_def Let_def split: if_splits)

lemma incrementReadPtr_Panic: "incrementReadPtr p ep s = Panic e s' \<Longrightarrow> s' = s"
  by (auto simp: incrementReadPtr_def Let_def split: if_splits)

lemma applyRingOp_countInRange:
  assumes "countInRange s ep"
  shows "countInRange (resultState (applyRingOp p op s)) ep"
proof (cases "applyRingOp p op s")
  case (Panic e s')
  then have "s' = s"
    by (cases op)
      (auto simp: applyRingOp_def dest: incrementWritePtr_Panic incrementReadPtr_Panic)
  with Panic assms show ?thesis by (simp add: resultState_def)
next
  case (Done s')
  show ?thesis
  proof (cases op)
    case (Produce e)
    with Done have d: "incrementWritePtr p e s = Done s'" by (simp add: applyRingOp_def)
    have "messageCountOf s' ep \<le> bufferSizeOf s' ep"
      using assms incrementWritePtr_count[OF d, of ep]
      by (auto simp: countInRange_def word_inc_le)
    with Done show ?thesis by (simp add: resultState_def countInRange_def)
  next
    case (Consume e)
    with Done have d: "incrementReadPtr p e s = Done s'" by (simp add: applyRingOp_def)
    have "messageCountOf s' ep \<le> bufferSizeOf s' ep"
      using assms incrementReadPtr_count[OF d, of ep]
      by (auto simp: countInRange_def word_dec_le)
    with Done show ?thesis by (simp add: resultState_def countInRange_def)
  qed
qed

lemma runRingOps_countInRange:
  "countInRange s ep \<Longrightarrow> countInRange (resultState (runRingOps p ops s)) ep"
proof (induction ops arbitrary: s)
  case Nil
  then show ?case by (simp add: resultState_def)
next
  case (Cons op ops)
  from applyRingOp_countInRange[OF Cons.prems, of p op]
  show ?case
    by (cases "applyRingOp p op s")
      (auto simp: resultState_def intro: Cons.IH[unfolded resultState_def])
qed

text \<open>
  C4 (ring count invariant). A produce step that does not stop the simulation leaves a
  count one larger (as a number, without wrapping), a consume step that does not stop it
  leaves a count one smaller, and neither changes the capacity. From a state in which an
  endpoint has \<open>messageCount \<le> bufferSize\<close>, every run of produce and consume steps, on
  this endpoint and on others, completed or stopped by an overflow or an underflow, ends
  in a state in which the endpoint still has \<open>messageCount \<le> bufferSize\<close>. The count is
  unsigned, so it is never below zero.
\<close>

theorem ring_count_invariant:
  "(incrementWritePtr p ep s = Done s' \<longrightarrow>
      unat (messageCountOf s' ep) = unat (messageCountOf s ep) + 1
      \<and> bufferSizeOf s' ep = bufferSizeOf s ep)
   \<and> (incrementReadPtr p ep s = Done s' \<longrightarrow>
      unat (messageCountOf s' ep) + 1 = unat (messageCountOf s ep)
      \<and> bufferSizeOf s' ep = bufferSizeOf s ep)
   \<and> (countInRange s ep \<longrightarrow> countInRange (resultState (runRingOps p ops s)) ep)"
proof (intro conjI impI)
  assume d: "incrementWritePtr p ep s = Done s'"
  from incrementWritePtr_count[OF d, of ep]
  show "unat (messageCountOf s' ep) = unat (messageCountOf s ep) + 1"
    using unat_word_inc[of "messageCountOf s ep" "bufferSizeOf s ep"] by simp
  from incrementWritePtr_count[OF d, of ep]
  show "bufferSizeOf s' ep = bufferSizeOf s ep" by simp
next
  assume d: "incrementReadPtr p ep s = Done s'"
  from incrementReadPtr_count[OF d, of ep]
  show "unat (messageCountOf s' ep) + 1 = unat (messageCountOf s ep)"
    using unat_word_dec[of "messageCountOf s ep"] by simp
  from incrementReadPtr_count[OF d, of ep]
  show "bufferSizeOf s' ep = bufferSizeOf s ep" by simp
next
  assume "countInRange s ep"
  then show "countInRange (resultState (runRingOps p ops s)) ep"
    by (rule runRingOps_countInRange)
qed

theorem ring_count_invariant_witness:
  "countInRange (receiveDtu 2) 1
   \<and> incrementWritePtr scenarioParams 1 (receiveDtu 2)
       = Done (resultState (incrementWritePtr scenarioParams 1 (receiveDtu 2)))
   \<and> unat (messageCountOf (resultState (incrementWritePtr scenarioParams 1 (receiveDtu 2))) 1)
       = 2 + 1
   \<and> incrementReadPtr scenarioParams 1 (receiveDtu 2)
       = Done (resultState (incrementReadPtr scenarioParams 1 (receiveDtu 2)))
   \<and> unat (messageCountOf (resultState (incrementReadPtr scenarioParams 1 (receiveDtu 2))) 1) + 1
       = 2
   \<and> countInRange (resultState (runRingOps scenarioParams
         [Produce 1, Consume 1, Consume 1, Consume 1, Produce 1] (receiveDtu 2))) 1"
proof -
  have h: "countInRange (receiveDtu 2) 1"
    by (simp add: countInRange_def scenario_simps)
  have w: "incrementWritePtr scenarioParams 1 (receiveDtu 2)
       = Done (resultState (incrementWritePtr scenarioParams 1 (receiveDtu 2)))"
    by (simp add: scenario_simps)
  have r: "incrementReadPtr scenarioParams 1 (receiveDtu 2)
       = Done (resultState (incrementReadPtr scenarioParams 1 (receiveDtu 2)))"
    by (simp add: scenario_simps)
  have c: "unat (messageCountOf (receiveDtu 2) 1) = 2"
    by (simp add: scenario_simps)
  from ring_count_invariant[of scenarioParams 1 "receiveDtu 2"
         "resultState (incrementWritePtr scenarioParams 1 (receiveDtu 2))"]
       ring_count_invariant[of scenarioParams 1 "receiveDtu 2"
         "resultState (incrementReadPtr scenarioParams 1 (receiveDtu 2))"
         "[Produce 1, Consume 1, Consume 1, Consume 1, Produce 1]"]
       h w r c
  show ?thesis by presburger
qed

subsection \<open>The consumer command\<close>

lemmas cmd_simps =
  getCommand_def decodeCommand_def opcodeMask_def epidMask_def offsetMask_def intMask_def
  readDtuReg_def setDtuReg_def INC_READ_PTR_def START_OPERATION_def IDLE_def

text \<open>
  C8 (consumer underflow). \<open>incrementReadPtr\<close> on an endpoint whose message count is zero
  stops with \<open>BufferUnderflow\<close> and changes nothing. On an endpoint whose count is not
  zero it completes: the read pointer has moved one slot on, back to the start of the
  buffer when it reached the end, and the count is one smaller. The command
  \<open>IncrementReadPtr\<close> for a valid endpoint is exactly this call.
\<close>

theorem incrementReadPtr_underflow:
  "(messageCountOf s ep = 0 \<longrightarrow> incrementReadPtr p ep s = Panic BufferUnderflow s)
   \<and> (messageCountOf s ep \<noteq> 0 \<longrightarrow>
        (\<exists>s'. incrementReadPtr p ep s = Done s'
           \<and> readPtrOf s' ep =
               (if readPtrOf s ep + maxMessageSize p
                     \<ge> bufferAddrOf s ep + bufferSizeOf s ep * maxMessageSize p
                then bufferAddrOf s ep else readPtrOf s ep + maxMessageSize p)
           \<and> messageCountOf s' ep = messageCountOf s ep - 1
           \<and> unat (messageCountOf s' ep) + 1 = unat (messageCountOf s ep)))
   \<and> (opcode (getCommand p s) = INC_READ_PTR \<and> epId (getCommand p s) = ep
        \<and> ep < numEndpoints p \<longrightarrow>
        executeCommand p s = incrementReadPtr p ep s)"
proof (intro conjI impI)
  assume "messageCountOf s ep = 0"
  then show "incrementReadPtr p ep s = Panic BufferUnderflow s"
    by (simp add: incrementReadPtr_def messageCountOf_def)
next
  assume nz: "messageCountOf s ep \<noteq> 0"
  then show "\<exists>s'. incrementReadPtr p ep s = Done s'
           \<and> readPtrOf s' ep =
               (if readPtrOf s ep + maxMessageSize p
                     \<ge> bufferAddrOf s ep + bufferSizeOf s ep * maxMessageSize p
                then bufferAddrOf s ep else readPtrOf s ep + maxMessageSize p)
           \<and> messageCountOf s' ep = messageCountOf s ep - 1
           \<and> unat (messageCountOf s' ep) + 1 = unat (messageCountOf s ep)"
    using unat_word_dec[OF nz]
    by (simp add: incrementReadPtr_def messageCountOf_def readPtrOf_def bufferAddrOf_def
        bufferSizeOf_def Let_def readEpReg_setEpReg)
next
  assume "opcode (getCommand p s) = INC_READ_PTR \<and> epId (getCommand p s) = ep
        \<and> ep < numEndpoints p"
  then show "executeCommand p s = incrementReadPtr p ep s"
    by (simp add: executeCommand_def Let_def INC_READ_PTR_def IDLE_def START_OPERATION_def)
qed

theorem incrementReadPtr_underflow_witness:
  "messageCountOf (consumeDtu 0) 1 = 0
   \<and> opcode (getCommand scenarioParams (consumeDtu 0)) = INC_READ_PTR
   \<and> epId (getCommand scenarioParams (consumeDtu 0)) = 1
   \<and> 1 < numEndpoints scenarioParams
   \<and> executeCommand scenarioParams (consumeDtu 0) = Panic BufferUnderflow (consumeDtu 0)
   \<and> messageCountOf (consumeDtu 3) 1 \<noteq> 0
   \<and> opcode (getCommand scenarioParams (consumeDtu 3)) = INC_READ_PTR
   \<and> epId (getCommand scenarioParams (consumeDtu 3)) = 1
   \<and> (\<exists>s'. executeCommand scenarioParams (consumeDtu 3) = Done s'
         \<and> readPtrOf s' 1 = 0x2400 \<and> messageCountOf s' 1 = 2)"
proof -
  have a: "messageCountOf (consumeDtu 0) 1 = 0"
    by (simp add: consumeDtu_def scenario_simps setDtuReg_def)
  have b: "opcode (getCommand scenarioParams (consumeDtu n)) = INC_READ_PTR
      \<and> epId (getCommand scenarioParams (consumeDtu n)) = 1
      \<and> 1 < numEndpoints scenarioParams" for n
    by (simp add: consumeDtu_def cmd_simps scenarioParams_def)
  have c: "messageCountOf (consumeDtu 3) 1 \<noteq> 0"
    by (simp add: consumeDtu_def scenario_simps setDtuReg_def)
  have d: "readPtrOf (consumeDtu 3) 1 = 0x2000 \<and> bufferAddrOf (consumeDtu 3) 1 = 0x2000
      \<and> bufferSizeOf (consumeDtu 3) 1 = 4 \<and> messageCountOf (consumeDtu 3) 1 = 3
      \<and> maxMessageSize scenarioParams = 1024"
    by (simp add: consumeDtu_def scenario_simps readPtrOf_def bufferAddrOf_def setDtuReg_def)
  from incrementReadPtr_underflow[of "consumeDtu 0" 1 scenarioParams]
       incrementReadPtr_underflow[of "consumeDtu 3" 1 scenarioParams] a b c d
  show ?thesis by auto
qed

subsection \<open>The preconditions of a transmission\<close>

lemma unat_add4:
  assumes "unat (a::64 word) + 4 < 2 ^ 64"
  shows "unat (a + 4) = unat a + 4"
proof -
  have "unat a + unat (4::64 word) < 2 ^ LENGTH(64)" using assms by simp
  then have "unat (a + 4) = unat a + unat (4::64 word)"
    by (simp only: unat_add_lem)
  then show ?thesis by simp
qed

lemma word_add4_not_less:
  "unat (a::64 word) + 4 < 2 ^ 64 \<Longrightarrow> \<not> a + 4 < a"
  by (simp add: word_less_nat_alt unat_add4)

text \<open>
  C7 (transmit preconditions). \<open>startMessageTransmission\<close> stops with \<open>EmptyMessage\<close>
  when the message size is zero and with \<open>MessageTooLarge\<close> when the size is not zero
  and \<open>messageSize + sizeof(MessageHeader) < maxMessageSize\<close> fails (in the 64-bit
  arithmetic of the source); it changes nothing in either case; and when it completes,
  both preconditions held. In particular the command \<open>StartOperation\<close> on a transmit
  endpoint whose message is as large as \<open>maxMessageSize\<close> (a message that is not empty,
  and whose size plus four does not wrap around) stops with \<open>MessageTooLarge\<close> in the
  state it started in: no request to the scratchpad or to the network has been issued.
\<close>

theorem startMessageTransmission_preconditions:
  "(messageSizeOf s ep = 0 \<longrightarrow> startMessageTransmission p ep s = Panic EmptyMessage s)
   \<and> (messageSizeOf s ep \<noteq> 0
        \<and> \<not> messageSizeOf s ep + sizeofMessageHeader < maxMessageSize p \<longrightarrow>
        startMessageTransmission p ep s = Panic MessageTooLarge s)
   \<and> (startMessageTransmission p ep s = Done s' \<longrightarrow>
        0 < messageSizeOf s ep
        \<and> messageSizeOf s ep + sizeofMessageHeader < maxMessageSize p)
   \<and> (opcode (getCommand p s) = START_OPERATION \<and> epId (getCommand p s) = ep
        \<and> ep < numEndpoints p \<and> modeOf s ep = TRANSMIT_MESSAGE
        \<and> messageSizeOf s ep = maxMessageSize p \<and> 0 < messageSizeOf s ep
        \<and> unat (messageSizeOf s ep) + 4 < 2 ^ 64 \<longrightarrow>
        executeCommand p s = Panic MessageTooLarge s
        \<and> spmRequests (resultState (executeCommand p s)) = spmRequests s
        \<and> nocRequests (resultState (executeCommand p s)) = nocRequests s)"
proof (intro conjI impI)
  assume "messageSizeOf s ep = 0"
  then show "startMessageTransmission p ep s = Panic EmptyMessage s"
    by (simp add: startMessageTransmission_def messageSizeOf_def)
next
  assume "messageSizeOf s ep \<noteq> 0
        \<and> \<not> messageSizeOf s ep + sizeofMessageHeader < maxMessageSize p"
  then show "startMessageTransmission p ep s = Panic MessageTooLarge s"
    by (simp add: startMessageTransmission_def messageSizeOf_def Let_def word_greater_zero_iff)
next
  assume d: "startMessageTransmission p ep s = Done s'"
  show "0 < messageSizeOf s ep"
    using d by (auto simp: startMessageTransmission_def messageSizeOf_def Let_def split: if_splits)
  show "messageSizeOf s ep + sizeofMessageHeader < maxMessageSize p"
    using d by (auto simp: startMessageTransmission_def messageSizeOf_def Let_def split: if_splits)
next
  assume a: "opcode (getCommand p s) = START_OPERATION \<and> epId (getCommand p s) = ep
        \<and> ep < numEndpoints p \<and> modeOf s ep = TRANSMIT_MESSAGE
        \<and> messageSizeOf s ep = maxMessageSize p \<and> 0 < messageSizeOf s ep
        \<and> unat (messageSizeOf s ep) + 4 < 2 ^ 64"
  then have sz: "maxMessageSize p = messageSizeOf s ep" by metis
  from a have nw: "unat (messageSizeOf s ep) + 4 < 2 ^ 64" by blast
  have "\<not> messageSizeOf s ep + sizeofMessageHeader < maxMessageSize p"
    unfolding sz sizeofMessageHeader_def by (rule word_add4_not_less[OF nw])
  moreover from a have "0 < messageSizeOf s ep" by blast
  ultimately have t: "startMessageTransmission p ep s = Panic MessageTooLarge s"
    by (simp add: startMessageTransmission_def messageSizeOf_def Let_def)
  from a have e: "executeCommand p s = startMessageTransmission p ep s"
    by (simp add: executeCommand_def startOperation_def Let_def modeOf_def
        START_OPERATION_def IDLE_def TRANSMIT_MESSAGE_def RECEIVE_MESSAGE_def)
  from e t show "executeCommand p s = Panic MessageTooLarge s" by simp
  from e t show "spmRequests (resultState (executeCommand p s)) = spmRequests s"
    by (simp add: resultState_def)
  from e t show "nocRequests (resultState (executeCommand p s)) = nocRequests s"
    by (simp add: resultState_def)
qed

lemmas transmit_simps = transmitDtu_def idleDtu_def scenarioParams_def messageSizeOf_def modeOf_def
  readEpReg_def setEpReg_def setDtuReg_def readDtuReg_def TRANSMIT_MESSAGE_def


theorem startMessageTransmission_preconditions_witness:
  "messageSizeOf (transmitDtu 0) 2 = 0
   \<and> startMessageTransmission scenarioParams 2 (transmitDtu 0) = Panic EmptyMessage (transmitDtu 0)
   \<and> opcode (getCommand scenarioParams (transmitDtu 1024)) = START_OPERATION
   \<and> epId (getCommand scenarioParams (transmitDtu 1024)) = 2
   \<and> 2 < numEndpoints scenarioParams
   \<and> modeOf (transmitDtu 1024) 2 = TRANSMIT_MESSAGE
   \<and> messageSizeOf (transmitDtu 1024) 2 = maxMessageSize scenarioParams
   \<and> 0 < messageSizeOf (transmitDtu 1024) 2
   \<and> unat (messageSizeOf (transmitDtu 1024) 2) + 4 < 2 ^ 64
   \<and> executeCommand scenarioParams (transmitDtu 1024) = Panic MessageTooLarge (transmitDtu 1024)
   \<and> spmRequests (resultState (executeCommand scenarioParams (transmitDtu 1024))) = []
   \<and> nocRequests (resultState (executeCommand scenarioParams (transmitDtu 1024))) = []
   \<and> startMessageTransmission scenarioParams 2 (transmitDtu 64)
       = Done (resultState (startMessageTransmission scenarioParams 2 (transmitDtu 64)))
   \<and> 0 < messageSizeOf (transmitDtu 64) 2
   \<and> messageSizeOf (transmitDtu 64) 2 + sizeofMessageHeader < maxMessageSize scenarioParams"
proof -
  have a: "messageSizeOf (transmitDtu 0) 2 = 0"
    by (simp add: transmit_simps)
  have b: "opcode (getCommand scenarioParams (transmitDtu 1024)) = START_OPERATION
      \<and> epId (getCommand scenarioParams (transmitDtu 1024)) = 2
      \<and> 2 < numEndpoints scenarioParams"
    by (simp add: transmitDtu_def cmd_simps scenarioParams_def)
  have c: "modeOf (transmitDtu 1024) 2 = TRANSMIT_MESSAGE
      \<and> messageSizeOf (transmitDtu 1024) 2 = maxMessageSize scenarioParams
      \<and> 0 < messageSizeOf (transmitDtu 1024) 2
      \<and> unat (messageSizeOf (transmitDtu 1024) 2) + 4 < 2 ^ 64"
    by (simp add: transmit_simps)
  have d: "spmRequests (transmitDtu 1024) = [] \<and> nocRequests (transmitDtu 1024) = []"
    by (simp add: transmit_simps)
  have e: "startMessageTransmission scenarioParams 2 (transmitDtu 64)
       = Done (resultState (startMessageTransmission scenarioParams 2 (transmitDtu 64)))"
    by (simp add: transmit_simps startMessageTransmission_def Let_def sizeofMessageHeader_def
        generateRequestOk_def resultState_def)
  from startMessageTransmission_preconditions[of "transmitDtu 0" 2 scenarioParams idleDtu] a
  have f: "startMessageTransmission scenarioParams 2 (transmitDtu 0)
             = Panic EmptyMessage (transmitDtu 0)"
    by blast
  from startMessageTransmission_preconditions[of "transmitDtu 1024" 2 scenarioParams idleDtu]
       b c
  have "executeCommand scenarioParams (transmitDtu 1024)
             = Panic MessageTooLarge (transmitDtu 1024)
           \<and> spmRequests (resultState (executeCommand scenarioParams (transmitDtu 1024)))
               = spmRequests (transmitDtu 1024)
           \<and> nocRequests (resultState (executeCommand scenarioParams (transmitDtu 1024)))
               = nocRequests (transmitDtu 1024)"
    by blast
  with d have g: "executeCommand scenarioParams (transmitDtu 1024)
             = Panic MessageTooLarge (transmitDtu 1024)
           \<and> spmRequests (resultState (executeCommand scenarioParams (transmitDtu 1024))) = []
           \<and> nocRequests (resultState (executeCommand scenarioParams (transmitDtu 1024))) = []"
    by metis
  from startMessageTransmission_preconditions[of "transmitDtu 64" 2 scenarioParams
         "resultState (startMessageTransmission scenarioParams 2 (transmitDtu 64))"] e
  have h: "0 < messageSizeOf (transmitDtu 64) 2
      \<and> messageSizeOf (transmitDtu 64) 2 + sizeofMessageHeader < maxMessageSize scenarioParams"
    by blast
  from a b c e f g h show ?thesis by blast
qed

subsection \<open>Receiving into a full buffer\<close>

lemma recvNocMessage_full:
  assumes "messageCountOf s (nocEndpoint p pkt) = bufferSizeOf s (nocEndpoint p pkt)"
  shows "recvNocMessage p pkt s = Panic BufferOverflow s"
  using assms
  by (simp add: recvNocMessage_def nocEndpoint_def messageCountOf_def bufferSizeOf_def Let_def)

text \<open>
  C6 (receive into a full buffer). A message frame from the network (a write request
  that carries data, is no error, and has the tag of a message on top) that is addressed
  to an endpoint whose message count equals the capacity of its buffer stops the receive
  pipeline with \<open>BufferOverflow\<close>. The state in which it stops is the state before the
  frame arrived: the message count is unchanged and no request has been issued to the
  scratchpad.
\<close>

theorem recvNocMessage_buffer_full:
  assumes "\<not> isError pkt" and "cmd pkt = WriteReq"
    and "senderState pkt = NocSenderState True False # rest"
    and "messageCountOf s (nocEndpoint p pkt) = bufferSizeOf s (nocEndpoint p pkt)"
  shows "handleNocRequest p pkt s = Panic BufferOverflow s
       \<and> messageCountOf (resultState (handleNocRequest p pkt s)) (nocEndpoint p pkt)
           = messageCountOf s (nocEndpoint p pkt)
       \<and> spmRequests (resultState (handleNocRequest p pkt s)) = spmRequests s"
proof -
  have e: "nocEndpoint p (pkt\<lparr>senderState := rest\<rparr>) = nocEndpoint p pkt"
    by (simp add: nocEndpoint_def)
  have "handleNocRequest p pkt s = recvNocMessage p (pkt\<lparr>senderState := rest\<rparr>) s"
    using assms(1-3) by (simp add: handleNocRequest_def isWrite_def hasData_def Let_def)
  also have "\<dots> = Panic BufferOverflow s"
    by (rule recvNocMessage_full) (simp add: e assms(4))
  finally show ?thesis by (simp add: resultState_def)
qed


theorem recvNocMessage_buffer_full_witness:
  "\<not> isError (inboundFrame 0x701 [7, 0, 2, 0, 0xAA, 0xBB])
   \<and> cmd (inboundFrame 0x701 [7, 0, 2, 0, 0xAA, 0xBB]) = WriteReq
   \<and> senderState (inboundFrame 0x701 [7, 0, 2, 0, 0xAA, 0xBB]) = [NocSenderState True False]
   \<and> nocEndpoint scenarioParams (inboundFrame 0x701 [7, 0, 2, 0, 0xAA, 0xBB]) = 1
   \<and> messageCountOf (receiveDtu 4) 1 = 4
   \<and> bufferSizeOf (receiveDtu 4) 1 = 4
   \<and> handleNocRequest scenarioParams (inboundFrame 0x701 [7, 0, 2, 0, 0xAA, 0xBB]) (receiveDtu 4)
       = Panic BufferOverflow (receiveDtu 4)
   \<and> messageCountOf (resultState (handleNocRequest scenarioParams
         (inboundFrame 0x701 [7, 0, 2, 0, 0xAA, 0xBB]) (receiveDtu 4))) 1 = 4
   \<and> spmRequests (resultState (handleNocRequest scenarioParams
         (inboundFrame 0x701 [7, 0, 2, 0, 0xAA, 0xBB]) (receiveDtu 4))) = []"
proof -
  let ?f = "inboundFrame 0x701 [7, 0, 2, 0, 0xAA, 0xBB]"
  have a: "\<not> isError ?f" and b: "cmd ?f = WriteReq"
    and c: "senderState ?f = NocSenderState True False # []"
    by (simp_all add: inboundFrame_def)
  have e: "nocEndpoint scenarioParams ?f = 1"
    by (simp add: nocEndpoint_def inboundFrame_def scenarioParams_def)
  have m: "messageCountOf (receiveDtu 4) 1 = 4" and z: "bufferSizeOf (receiveDtu 4) 1 = 4"
    and q: "spmRequests (receiveDtu 4) = []"
    by (simp_all add: scenario_simps)
  have d: "messageCountOf (receiveDtu 4) (nocEndpoint scenarioParams ?f)
         = bufferSizeOf (receiveDtu 4) (nocEndpoint scenarioParams ?f)"
    unfolding e m z ..
  from recvNocMessage_buffer_full[OF a b c d] a b c e m z q
  show ?thesis by metis
qed

subsection \<open>Pointer wraparound\<close>

lemma unat_mult_small:
  assumes "unat (a::64 word) * unat b < 2 ^ 64"
  shows "unat (a * b) = unat a * unat b"
proof -
  have "unat a * unat b < 2 ^ LENGTH(64)" using assms by simp
  then show ?thesis by (rule unat_mult_lem[THEN iffD1])
qed

lemma unat_add_small:
  assumes "unat (a::64 word) + unat b < 2 ^ 64"
  shows "unat (a + b) = unat a + unat b"
proof -
  have "unat a + unat b < 2 ^ LENGTH(64)" using assms by simp
  then show ?thesis by (rule unat_add_lem[THEN iffD1])
qed

text \<open>The address of slot \<open>k\<close> of a buffer that fits, as a number.\<close>

lemma slot_unat:
  assumes nw: "unat (B::64 word) + unat (n::64 word) * unat m < 2 ^ 64" and k: "k \<le> unat n"
  shows "unat (B + of_nat k * m) = unat B + k * unat m"
proof -
  have km: "k * unat m \<le> unat n * unat m" using k by (rule mult_le_mono1)
  have uk: "unat (of_nat k :: 64 word) = k" using k by (rule le_unat_uoi)
  have "unat (of_nat k :: 64 word) * unat m < 2 ^ 64"
    unfolding uk using km nw by linarith
  then have "unat (of_nat k * m) = k * unat m"
    using unat_mult_small[of "of_nat k" m] uk by simp
  moreover have "unat B + unat (of_nat k * m) < 2 ^ 64"
    using calculation km nw by linarith
  ultimately show ?thesis
    using unat_add_small[of B "of_nat k * m"] by simp
qed

lemma advance_slot:
  assumes nw: "unat (B::64 word) + unat (n::64 word) * unat m < 2 ^ 64" and j: "j < unat n"
  shows "advance m (B + of_nat j * m) B n = B + of_nat (Suc j mod unat n) * m"
proof -
  have p: "B + of_nat j * m + m = B + of_nat (Suc j) * m"
    by (simp add: algebra_simps)
  have up: "unat (B + of_nat (Suc j) * m) = unat B + Suc j * unat m"
    using j by (intro slot_unat[OF nw]) simp
  have "unat (B + of_nat (unat n) * m) = unat B + unat n * unat m"
    by (intro slot_unat[OF nw]) simp
  then have ul: "unat (B + n * m) = unat B + unat n * unat m" by simp
  have cmp: "(B + n * m \<le> B + of_nat (Suc j) * m) = (unat n * unat m \<le> Suc j * unat m)"
    by (simp only: word_le_nat_alt up ul add_le_cancel_left)
  show ?thesis
  proof (cases "m = 0")
    case True
    then show ?thesis by (simp add: advance_def)
  next
    case False
    then have m: "0 < unat m" by (simp add: unat_gt_0)
    show ?thesis
    proof (cases "Suc j = unat n")
      case True
      then have "B + n * m \<le> B + of_nat (Suc j) * m"
        unfolding cmp mult_le_cancel2 by simp
      moreover have "Suc j mod unat n = 0" using True by simp
      ultimately show ?thesis unfolding advance_def Let_def p by simp
    next
      case False
      with j have lt: "Suc j < unat n" by simp
      then have "\<not> B + n * m \<le> B + of_nat (Suc j) * m"
        unfolding cmp mult_le_cancel2 using m by simp
      moreover have "Suc j mod unat n = Suc j" using lt by simp
      ultimately show ?thesis unfolding advance_def Let_def p by simp
    qed
  qed
qed

text \<open>What one step of a run does to the registers of the ring.\<close>

lemma incrementWritePtr_regs:
  assumes "incrementWritePtr p e s = Done s'"
  shows "writePtrOf s' ep =
           (if ep = e then advance (maxMessageSize p) (writePtrOf s e) (bufferAddrOf s e)
                             (bufferSizeOf s e)
            else writePtrOf s ep)
       \<and> readPtrOf s' ep = readPtrOf s ep
       \<and> bufferAddrOf s' ep = bufferAddrOf s ep
       \<and> bufferSizeOf s' ep = bufferSizeOf s ep
       \<and> bufferSizeOf s e \<noteq> 0"
  using assms
  by (auto simp: incrementWritePtr_def Let_def advance_def writePtrOf_def readPtrOf_def
      bufferAddrOf_def bufferSizeOf_def readEpReg_setEpReg split: if_splits)

lemma incrementReadPtr_regs:
  assumes "incrementReadPtr p e s = Done s'"
  shows "readPtrOf s' ep =
           (if ep = e then advance (maxMessageSize p) (readPtrOf s e) (bufferAddrOf s e)
                             (bufferSizeOf s e)
            else readPtrOf s ep)
       \<and> writePtrOf s' ep = writePtrOf s ep
       \<and> bufferAddrOf s' ep = bufferAddrOf s ep
       \<and> bufferSizeOf s' ep = bufferSizeOf s ep"
  using assms
  by (auto simp: incrementReadPtr_def Let_def advance_def writePtrOf_def readPtrOf_def
      bufferAddrOf_def bufferSizeOf_def readEpReg_setEpReg split: if_splits)

lemma runRingOps_Cons_Done:
  assumes "runRingOps p (op # ops) s = Done s'"
  obtains s1 where "applyRingOp p op s = Done s1" and "runRingOps p ops s1 = Done s'"
  using assms by (cases "applyRingOp p op s") auto

lemma runRingOps_writePtr:
  assumes "runRingOps p ops s = Done s'"
    and "bufferFits p s ep"
    and "writePtrOf s ep = bufferAddrOf s ep + of_nat j * maxMessageSize p"
    and "j < unat (bufferSizeOf s ep) \<or> j = 0"
  shows "writePtrOf s' ep =
           bufferAddrOf s ep
             + of_nat ((j + produceCount ep ops) mod unat (bufferSizeOf s ep)) * maxMessageSize p
       \<and> bufferAddrOf s' ep = bufferAddrOf s ep \<and> bufferSizeOf s' ep = bufferSizeOf s ep"
  using assms
proof (induction ops arbitrary: s j)
  case Nil
  then show ?case by (auto simp: produceCount_def)
next
  case (Cons op ops)
  from Cons.prems(1) obtain s1 where
    a: "applyRingOp p op s = Done s1" and r: "runRingOps p ops s1 = Done s'"
    by (rule runRingOps_Cons_Done)
  show ?case
  proof (cases "op = Produce ep")
    case True
    with a have d: "incrementWritePtr p ep s = Done s1" by (simp add: applyRingOp_def)
    note regs = incrementWritePtr_regs[OF d, of ep]
    from regs have nz: "unat (bufferSizeOf s ep) \<noteq> 0" by (simp add: unat_eq_0)
    with Cons.prems(4) have j: "j < unat (bufferSizeOf s ep)" by auto
    have nw: "unat (bufferAddrOf s ep) + unat (bufferSizeOf s ep) * unat (maxMessageSize p)
                < 2 ^ 64"
      using Cons.prems(2) by (simp add: bufferFits_def)
    have w1: "writePtrOf s1 ep =
                bufferAddrOf s1 ep
                  + of_nat (Suc j mod unat (bufferSizeOf s ep)) * maxMessageSize p"
      using regs advance_slot[OF nw j] Cons.prems(3) by simp
    have f1: "bufferFits p s1 ep" using Cons.prems(2) regs by (simp add: bufferFits_def)
    have j1: "Suc j mod unat (bufferSizeOf s ep) < unat (bufferSizeOf s1 ep)
              \<or> Suc j mod unat (bufferSizeOf s ep) = 0"
      using nz regs by simp
    from Cons.IH[OF r f1 _ j1] w1 regs
    have "writePtrOf s' ep =
            bufferAddrOf s ep
              + of_nat ((Suc j mod unat (bufferSizeOf s ep) + produceCount ep ops)
                          mod unat (bufferSizeOf s ep)) * maxMessageSize p
          \<and> bufferAddrOf s' ep = bufferAddrOf s ep \<and> bufferSizeOf s' ep = bufferSizeOf s ep"
      by simp
    moreover have "(Suc j mod unat (bufferSizeOf s ep) + produceCount ep ops)
                     mod unat (bufferSizeOf s ep)
                 = (j + produceCount ep (op # ops)) mod unat (bufferSizeOf s ep)"
      using True by (simp add: produceCount_def mod_add_left_eq)
    ultimately show ?thesis by simp
  next
    case False
    have same: "writePtrOf s1 ep = writePtrOf s ep \<and> bufferAddrOf s1 ep = bufferAddrOf s ep
                \<and> bufferSizeOf s1 ep = bufferSizeOf s ep"
    proof (cases op)
      case (Produce e)
      with a have d: "incrementWritePtr p e s = Done s1" by (simp add: applyRingOp_def)
      from Produce False have "ep \<noteq> e" by simp
      with incrementWritePtr_regs[OF d, of ep] show ?thesis by simp
    next
      case (Consume e)
      with a have d: "incrementReadPtr p e s = Done s1" by (simp add: applyRingOp_def)
      from incrementReadPtr_regs[OF d, of ep] show ?thesis by simp
    qed
    have f1: "bufferFits p s1 ep" using Cons.prems(2) same by (simp add: bufferFits_def)
    have w1: "writePtrOf s1 ep = bufferAddrOf s1 ep + of_nat j * maxMessageSize p"
      using same Cons.prems(3) by simp
    have j1: "j < unat (bufferSizeOf s1 ep) \<or> j = 0" using same Cons.prems(4) by simp
    from Cons.IH[OF r f1 w1 j1] same False show ?thesis by (simp add: produceCount_def)
  qed
qed

lemma runRingOps_readPtr:
  assumes "runRingOps p ops s = Done s'"
    and "bufferFits p s ep"
    and "readPtrOf s ep = bufferAddrOf s ep + of_nat j * maxMessageSize p"
    and "j < unat (bufferSizeOf s ep)"
  shows "readPtrOf s' ep =
           bufferAddrOf s ep
             + of_nat ((j + consumeCount ep ops) mod unat (bufferSizeOf s ep)) * maxMessageSize p
       \<and> bufferAddrOf s' ep = bufferAddrOf s ep \<and> bufferSizeOf s' ep = bufferSizeOf s ep"
  using assms
proof (induction ops arbitrary: s j)
  case Nil
  then show ?case by (auto simp: consumeCount_def)
next
  case (Cons op ops)
  from Cons.prems(1) obtain s1 where
    a: "applyRingOp p op s = Done s1" and r: "runRingOps p ops s1 = Done s'"
    by (rule runRingOps_Cons_Done)
  note j = Cons.prems(4)
  then have nz: "unat (bufferSizeOf s ep) \<noteq> 0" by simp
  show ?case
  proof (cases "op = Consume ep")
    case True
    with a have d: "incrementReadPtr p ep s = Done s1" by (simp add: applyRingOp_def)
    note regs = incrementReadPtr_regs[OF d, of ep]
    have nw: "unat (bufferAddrOf s ep) + unat (bufferSizeOf s ep) * unat (maxMessageSize p)
                < 2 ^ 64"
      using Cons.prems(2) by (simp add: bufferFits_def)
    have w1: "readPtrOf s1 ep =
                bufferAddrOf s1 ep
                  + of_nat (Suc j mod unat (bufferSizeOf s ep)) * maxMessageSize p"
      using regs advance_slot[OF nw j] Cons.prems(3) by simp
    have f1: "bufferFits p s1 ep" using Cons.prems(2) regs by (simp add: bufferFits_def)
    have j1: "Suc j mod unat (bufferSizeOf s ep) < unat (bufferSizeOf s1 ep)"
      using nz regs by simp
    from Cons.IH[OF r f1 _ j1] w1 regs
    have "readPtrOf s' ep =
            bufferAddrOf s ep
              + of_nat ((Suc j mod unat (bufferSizeOf s ep) + consumeCount ep ops)
                          mod unat (bufferSizeOf s ep)) * maxMessageSize p
          \<and> bufferAddrOf s' ep = bufferAddrOf s ep \<and> bufferSizeOf s' ep = bufferSizeOf s ep"
      by simp
    moreover have "(Suc j mod unat (bufferSizeOf s ep) + consumeCount ep ops)
                     mod unat (bufferSizeOf s ep)
                 = (j + consumeCount ep (op # ops)) mod unat (bufferSizeOf s ep)"
      using True by (simp add: consumeCount_def mod_add_left_eq)
    ultimately show ?thesis by simp
  next
    case False
    have same: "readPtrOf s1 ep = readPtrOf s ep \<and> bufferAddrOf s1 ep = bufferAddrOf s ep
                \<and> bufferSizeOf s1 ep = bufferSizeOf s ep"
    proof (cases op)
      case (Consume e)
      with a have d: "incrementReadPtr p e s = Done s1" by (simp add: applyRingOp_def)
      from Consume False have "ep \<noteq> e" by simp
      with incrementReadPtr_regs[OF d, of ep] show ?thesis by simp
    next
      case (Produce e)
      with a have d: "incrementWritePtr p e s = Done s1" by (simp add: applyRingOp_def)
      from incrementWritePtr_regs[OF d, of ep] show ?thesis by simp
    qed
    have f1: "bufferFits p s1 ep" using Cons.prems(2) same by (simp add: bufferFits_def)
    have w1: "readPtrOf s1 ep = bufferAddrOf s1 ep + of_nat j * maxMessageSize p"
      using same Cons.prems(3) by simp
    have j1: "j < unat (bufferSizeOf s1 ep)" using same j by simp
    from Cons.IH[OF r f1 w1 j1] same False show ?thesis by (simp add: consumeCount_def)
  qed
qed

lemma runRingOps_no_consume:
  assumes "runRingOps p ops s = Done s'" and "consumeCount ep ops = 0"
  shows "readPtrOf s' ep = readPtrOf s ep \<and> bufferAddrOf s' ep = bufferAddrOf s ep"
  using assms
proof (induction ops arbitrary: s)
  case Nil
  then show ?case by simp
next
  case (Cons op ops)
  from Cons.prems(1) obtain s1 where
    a: "applyRingOp p op s = Done s1" and r: "runRingOps p ops s1 = Done s'"
    by (rule runRingOps_Cons_Done)
  from Cons.prems(2) have ne: "op \<noteq> Consume ep" and c: "consumeCount ep ops = 0"
    by (auto simp: consumeCount_def split: if_splits)
  have same: "readPtrOf s1 ep = readPtrOf s ep \<and> bufferAddrOf s1 ep = bufferAddrOf s ep"
  proof (cases op)
    case (Consume e)
    with a have d: "incrementReadPtr p e s = Done s1" by (simp add: applyRingOp_def)
    from Consume ne have "ep \<noteq> e" by simp
    with incrementReadPtr_regs[OF d, of ep] show ?thesis by simp
  next
    case (Produce e)
    with a have d: "incrementWritePtr p e s = Done s1" by (simp add: applyRingOp_def)
    from incrementWritePtr_regs[OF d, of ep] show ?thesis by simp
  qed
  with Cons.IH[OF r c] show ?case by simp
qed

text \<open>
  C5 (pointer wraparound). A produce step that completes leaves the write pointer at
  \<open>advance\<close> of the old one, and a consume step that completes leaves the read pointer
  at \<open>advance\<close> of the old one: the same function of the specification, with the slot
  size \<open>maxMessageSize\<close>, the start and the capacity of the buffer. For a buffer that ends
  inside the address space: when a pointer stands at the start of the buffer, every run
  of produce and consume steps that completes and advances this pointer exactly
  \<open>bufferSize\<close> times leaves it at the start of the buffer again.
\<close>

theorem pointer_wraparound:
  "(incrementWritePtr p ep s = Done s' \<longrightarrow>
      writePtrOf s' ep =
        advance (maxMessageSize p) (writePtrOf s ep) (bufferAddrOf s ep) (bufferSizeOf s ep))
   \<and> (incrementReadPtr p ep s = Done s' \<longrightarrow>
      readPtrOf s' ep =
        advance (maxMessageSize p) (readPtrOf s ep) (bufferAddrOf s ep) (bufferSizeOf s ep))
   \<and> (bufferFits p s ep \<and> runRingOps p ops s = Done s'
        \<and> writePtrOf s ep = bufferAddrOf s ep
        \<and> produceCount ep ops = unat (bufferSizeOf s ep) \<longrightarrow>
      writePtrOf s' ep = bufferAddrOf s' ep)
   \<and> (bufferFits p s ep \<and> runRingOps p ops s = Done s'
        \<and> readPtrOf s ep = bufferAddrOf s ep
        \<and> consumeCount ep ops = unat (bufferSizeOf s ep) \<longrightarrow>
      readPtrOf s' ep = bufferAddrOf s' ep)"
proof (intro conjI impI)
  assume "incrementWritePtr p ep s = Done s'"
  from incrementWritePtr_regs[OF this, of ep]
  show "writePtrOf s' ep =
        advance (maxMessageSize p) (writePtrOf s ep) (bufferAddrOf s ep) (bufferSizeOf s ep)"
    by simp
next
  assume "incrementReadPtr p ep s = Done s'"
  from incrementReadPtr_regs[OF this, of ep]
  show "readPtrOf s' ep =
        advance (maxMessageSize p) (readPtrOf s ep) (bufferAddrOf s ep) (bufferSizeOf s ep)"
    by simp
next
  assume a: "bufferFits p s ep \<and> runRingOps p ops s = Done s'
        \<and> writePtrOf s ep = bufferAddrOf s ep
        \<and> produceCount ep ops = unat (bufferSizeOf s ep)"
  then have f: "bufferFits p s ep" and r: "runRingOps p ops s = Done s'"
    and c: "produceCount ep ops = unat (bufferSizeOf s ep)" by blast+
  from a have w: "writePtrOf s ep = bufferAddrOf s ep + of_nat 0 * maxMessageSize p" by simp
  have "0 < unat (bufferSizeOf s ep) \<or> (0::nat) = 0" by simp
  from runRingOps_writePtr[OF r f w this] c
  show "writePtrOf s' ep = bufferAddrOf s' ep" by simp
next
  assume a: "bufferFits p s ep \<and> runRingOps p ops s = Done s'
        \<and> readPtrOf s ep = bufferAddrOf s ep
        \<and> consumeCount ep ops = unat (bufferSizeOf s ep)"
  then have f: "bufferFits p s ep" and r: "runRingOps p ops s = Done s'"
    and c: "consumeCount ep ops = unat (bufferSizeOf s ep)" by blast+
  from a have w0: "readPtrOf s ep = bufferAddrOf s ep" by blast
  show "readPtrOf s' ep = bufferAddrOf s' ep"
  proof (cases "unat (bufferSizeOf s ep) = 0")
    case True
    with c have "consumeCount ep ops = 0" by simp
    from runRingOps_no_consume[OF r this] w0 show ?thesis by simp
  next
    case False
    then have j: "0 < unat (bufferSizeOf s ep)" by simp
    from w0 have w: "readPtrOf s ep = bufferAddrOf s ep + of_nat 0 * maxMessageSize p" by simp
    from runRingOps_readPtr[OF r f w j] c show ?thesis by simp
  qed
qed

lemmas ring_reg_simps = writePtrOf_def readPtrOf_def bufferAddrOf_def bufferSizeOf_def

theorem pointer_wraparound_witness:
  "bufferFits scenarioParams (receiveDtu 2) 1
   \<and> writePtrOf (receiveDtu 2) 1 = bufferAddrOf (receiveDtu 2) 1
   \<and> readPtrOf (receiveDtu 2) 1 = bufferAddrOf (receiveDtu 2) 1
   \<and> unat (bufferSizeOf (receiveDtu 2) 1) = 4
   \<and> produceCount 1 [Produce 1, Consume 1, Produce 1, Consume 1, Consume 1, Produce 1,
        Produce 1, Consume 1] = 4
   \<and> consumeCount 1 [Produce 1, Consume 1, Produce 1, Consume 1, Consume 1, Produce 1,
        Produce 1, Consume 1] = 4
   \<and> (\<exists>s'. runRingOps scenarioParams
              [Produce 1, Consume 1, Produce 1, Consume 1, Consume 1, Produce 1, Produce 1,
               Consume 1] (receiveDtu 2) = Done s'
         \<and> writePtrOf s' 1 = bufferAddrOf s' 1 \<and> readPtrOf s' 1 = bufferAddrOf s' 1)
   \<and> (\<exists>s'. incrementWritePtr scenarioParams 1 (receiveDtu 2) = Done s'
         \<and> writePtrOf s' 1 = advance 1024 0x2000 0x2000 4)
   \<and> (\<exists>s'. incrementReadPtr scenarioParams 1 (receiveDtu 2) = Done s'
         \<and> readPtrOf s' 1 = advance 1024 0x2000 0x2000 4)"
proof -
  let ?ops = "[Produce 1, Consume 1, Produce 1, Consume 1, Consume 1, Produce 1, Produce 1,
               Consume 1]"
  let ?s' = "resultState (runRingOps scenarioParams ?ops (receiveDtu 2))"
  let ?w = "resultState (incrementWritePtr scenarioParams 1 (receiveDtu 2))"
  let ?r = "resultState (incrementReadPtr scenarioParams 1 (receiveDtu 2))"
  have f: "bufferFits scenarioParams (receiveDtu 2) 1"
    by (simp add: bufferFits_def scenario_simps ring_reg_simps)
  have regs: "writePtrOf (receiveDtu 2) 1 = bufferAddrOf (receiveDtu 2) 1"
    "readPtrOf (receiveDtu 2) 1 = bufferAddrOf (receiveDtu 2) 1"
    "unat (bufferSizeOf (receiveDtu 2) 1) = 4"
    by (simp_all add: scenario_simps ring_reg_simps)
  have vals: "writePtrOf (receiveDtu 2) 1 = 0x2000" "readPtrOf (receiveDtu 2) 1 = 0x2000"
    "bufferAddrOf (receiveDtu 2) 1 = 0x2000" "bufferSizeOf (receiveDtu 2) 1 = 4"
    "maxMessageSize scenarioParams = 1024"
    by (simp_all add: scenario_simps ring_reg_simps)
  have pc: "produceCount 1 ?ops = 4" by (simp add: produceCount_def)
  have cc: "consumeCount 1 ?ops = 4" by (simp add: consumeCount_def)
  have run: "runRingOps scenarioParams ?ops (receiveDtu 2) = Done ?s'"
    by (simp add: applyRingOp_def scenario_simps)
  have w: "incrementWritePtr scenarioParams 1 (receiveDtu 2) = Done ?w"
    by (simp add: scenario_simps)
  have r: "incrementReadPtr scenarioParams 1 (receiveDtu 2) = Done ?r"
    by (simp add: scenario_simps)
  from pointer_wraparound[of scenarioParams 1 "receiveDtu 2" ?s' ?ops] f run regs pc cc
  have 1: "writePtrOf ?s' 1 = bufferAddrOf ?s' 1 \<and> readPtrOf ?s' 1 = bufferAddrOf ?s' 1"
    by presburger
  from pointer_wraparound[of scenarioParams 1 "receiveDtu 2" ?w] w
  have 2: "writePtrOf ?w 1 = advance 1024 0x2000 0x2000 4"
    unfolding vals by blast
  from pointer_wraparound[of scenarioParams 1 "receiveDtu 2" ?r] r
  have 3: "readPtrOf ?r 1 = advance 1024 0x2000 0x2000 4"
    unfolding vals by blast
  from f regs pc cc run w r 1 2 3 show ?thesis by blast
qed

subsection \<open>Requests of the core\<close>

text \<open>
  C10 (address rebasing). Let the register file answer \<open>(commandWritten, pkt2, rf)\<close> to
  the packet whose address is the original address minus \<open>cpuBaseAddr\<close>. Then this
  answer is all that \<open>handleCpuRequest\<close> takes from the register file, and the packet it
  hands back carries the original address. In timed mode it completes, its state holds
  the register file \<open>rf\<close>, and the one response it schedules for the core is \<open>pkt2\<close> with
  the original address (and both delays cleared). In atomic mode it schedules no
  response, and the packet the caller gets back is \<open>pkt2\<close> with the original address.
\<close>

theorem handleCpuRequest_restores_address:
  "regFileHandleRequest p (pkt\<lparr>getAddr := getAddr pkt - cpuBaseAddr p\<rparr>) (regFile s)
     = (commandWritten, pkt2, rf) \<longrightarrow>
   getAddr (fst (handleCpuRequest p pkt s)) = getAddr pkt
   \<and> (\<not> atomicMode p \<longrightarrow>
        (\<exists>c s'. snd (handleCpuRequest p pkt s) = Done s'
           \<and> regFile s' = rf
           \<and> cpuResponses s' =
               cpuResponses s
                 @ [(pkt2\<lparr>getAddr := getAddr pkt, headerDelay := 0, payloadDelay := 0\<rparr>, c)]
           \<and> getAddr (fst (last (cpuResponses s'))) = getAddr pkt))
   \<and> (atomicMode p \<longrightarrow>
        fst (handleCpuRequest p pkt s) = pkt2\<lparr>getAddr := getAddr pkt\<rparr>
        \<and> snd (handleCpuRequest p pkt s) =
            (if commandWritten then executeCommand p (s\<lparr>regFile := rf\<rparr>)
             else Done (s\<lparr>regFile := rf\<rparr>)))"
  by (simp add: handleCpuRequest_def Let_def schedCpuResponse_def schedule_def)

lemmas cpu_simps = handleCpuRequest_def Let_def schedCpuResponse_def schedule_def
  sampleHandleRequest_def makeResponse_def cpuWrite_def bytesToReg_def setDtuReg_def


theorem handleCpuRequest_restores_address_witness:
  "regFileHandleRequest scenarioParams
      ((cpuWrite 0x10000000 [9, 0, 0, 0, 0, 0, 0, 0])
         \<lparr>getAddr := getAddr (cpuWrite 0x10000000 [9, 0, 0, 0, 0, 0, 0, 0])
                       - cpuBaseAddr scenarioParams\<rparr>) (regFile idleDtu)
     = (True, makeResponse (cpuWrite 0 [9, 0, 0, 0, 0, 0, 0, 0]),
        setDtuReg COMMAND 9 (regFile idleDtu))
   \<and> \<not> atomicMode scenarioParams
   \<and> getAddr (fst (handleCpuRequest scenarioParams
        (cpuWrite 0x10000000 [9, 0, 0, 0, 0, 0, 0, 0]) idleDtu)) = 0x10000000
   \<and> (\<exists>c s'. snd (handleCpuRequest scenarioParams
                    (cpuWrite 0x10000000 [9, 0, 0, 0, 0, 0, 0, 0]) idleDtu) = Done s'
         \<and> regFile s' = setDtuReg COMMAND 9 (regFile idleDtu)
         \<and> cpuResponses s' =
             [((makeResponse (cpuWrite 0 [9, 0, 0, 0, 0, 0, 0, 0]))
                 \<lparr>getAddr := 0x10000000, headerDelay := 0, payloadDelay := 0\<rparr>, c)]
         \<and> getAddr (fst (last (cpuResponses s'))) = 0x10000000)"
proof -
  let ?pkt = "cpuWrite 0x10000000 [9, 0, 0, 0, 0, 0, 0, 0]"
  have h: "regFileHandleRequest scenarioParams
      (?pkt\<lparr>getAddr := getAddr ?pkt - cpuBaseAddr scenarioParams\<rparr>) (regFile idleDtu)
     = (True, makeResponse (cpuWrite 0 [9, 0, 0, 0, 0, 0, 0, 0]),
        setDtuReg COMMAND 9 (regFile idleDtu))"
    by (simp add: scenarioParams_def sampleHandleRequest_def cpuWrite_def makeResponse_def
        bytesToReg_def)
  have t: "\<not> atomicMode scenarioParams" by (simp add: scenarioParams_def)
  have a: "getAddr ?pkt = 0x10000000" "cpuResponses idleDtu = []"
    by (simp_all add: cpuWrite_def idleDtu_def)
  from handleCpuRequest_restores_address[of scenarioParams ?pkt idleDtu True
         "makeResponse (cpuWrite 0 [9, 0, 0, 0, 0, 0, 0, 0])"
         "setDtuReg COMMAND 9 (regFile idleDtu)"] h t
  show ?thesis unfolding a append_Nil by blast
qed

subsection \<open>Tags\<close>

lemma issuedTagsExclusive_cong:
  "spmRequests s' = spmRequests s \<Longrightarrow> nocRequests s' = nocRequests s \<Longrightarrow>
   issuedTagsExclusive s' = issuedTagsExclusive s"
  by (simp add: issuedTagsExclusive_def)

lemma tags_incrementWritePtr:
  "issuedTagsExclusive s \<Longrightarrow> issuedTagsExclusive (resultState (incrementWritePtr p ep s))"
  by (simp add: incrementWritePtr_def Let_def resultState_def issuedTagsExclusive_def)

lemma tags_incrementReadPtr:
  "issuedTagsExclusive s \<Longrightarrow> issuedTagsExclusive (resultState (incrementReadPtr p ep s))"
  by (simp add: incrementReadPtr_def Let_def resultState_def issuedTagsExclusive_def)

lemma tags_completeNocRequest:
  "issuedTagsExclusive s \<Longrightarrow> issuedTagsExclusive (resultState (completeNocRequest p pkt s))"
  by (simp add: completeNocRequest_def Let_def resultState_def issuedTagsExclusive_def
      schedule_def)

lemma tags_completeLocalSpmRequest:
  assumes "issuedTagsExclusive s"
  shows "issuedTagsExclusive (resultState (completeLocalSpmRequest p pkt s))"
proof -
  have n: "nocTagExclusive (pushSenderState (NocSenderState True False) q)" for q
    by (simp add: nocTagExclusive_def pushSenderState_def exactlyOne_def)
  have a: "issuedTagsExclusive (s\<lparr>nocRequests := nocRequests s @ [(pushSenderState (NocSenderState True False) q, w)]\<rparr>)" for q w
    using assms n by (simp add: issuedTagsExclusive_def)
  show ?thesis
    using assms a tags_completeNocRequest[OF a]
    by (simp add: completeLocalSpmRequest_def Let_def resultState_def sendAtomicNocRequest_def
        schedNocRequest_def)
qed

lemma tags_completeForwardedSpmRequest:
  assumes "issuedTagsExclusive s"
  shows "issuedTagsExclusive (resultState (completeForwardedSpmRequest p pkt ep s))"
  using assms tags_incrementWritePtr[OF assms]
  by (simp add: completeForwardedSpmRequest_def Let_def schedule_def schedNocResponse_def
      issuedTagsExclusive_def resultState_def)

lemma tags_completeSpmRequest:
  assumes "issuedTagsExclusive s"
  shows "issuedTagsExclusive (resultState (completeSpmRequest p pkt s))"
  using assms tags_completeLocalSpmRequest[OF assms] tags_completeForwardedSpmRequest[OF assms]
  by (simp add: completeSpmRequest_def Let_def resultState_def
      split: list.splits SenderState.splits)

lemma tags_sendAtomicSpmRequest:
  assumes "issuedTagsExclusive s" and "spmTagExclusive pkt"
  shows "issuedTagsExclusive (snd (sendAtomicSpmRequest pkt s))"
  using assms by (simp add: sendAtomicSpmRequest_def Let_def issuedTagsExclusive_def)

lemma tags_startMessageTransmission:
  assumes "issuedTagsExclusive s"
  shows "issuedTagsExclusive (resultState (startMessageTransmission p ep s))"
proof -
  let ?s1 = "s\<lparr>regFile := setDtuReg STATUS 1 (regFile s)\<rparr>"
  have s1: "issuedTagsExclusive ?s1" using assms by (simp add: issuedTagsExclusive_def)
  have t: "spmTagExclusive (pushSenderState (SpmSenderState ep True False) q)" for q
    by (simp add: spmTagExclusive_def pushSenderState_def exactlyOne_def)
  have a: "issuedTagsExclusive
             (resultState (case sendAtomicSpmRequest q ?s1 of
                             (pkt', s2) \<Rightarrow> completeSpmRequest p pkt' s2))"
    if "spmTagExclusive q" for q
    using tags_completeSpmRequest[OF tags_sendAtomicSpmRequest[OF s1 that]]
    by (simp add: split_beta)
  show ?thesis
    using assms s1 t a
    by (simp add: startMessageTransmission_def Let_def resultState_def schedSpmRequest_def
        issuedTagsExclusive_def)
qed

lemma tags_executeCommand:
  assumes "issuedTagsExclusive s"
  shows "issuedTagsExclusive (resultState (executeCommand p s))"
  using assms tags_startMessageTransmission[OF assms] tags_incrementReadPtr[OF assms]
  by (simp add: executeCommand_def startOperation_def Let_def resultState_def)

lemma tags_recvNocMessage:
  assumes "issuedTagsExclusive s"
  shows "issuedTagsExclusive (resultState (recvNocMessage p pkt s))"
proof -
  have t: "spmTagExclusive (pushSenderState (SpmSenderState ep False True) q)" for q ep
    by (simp add: spmTagExclusive_def pushSenderState_def exactlyOne_def)
  have t': "spmTagExclusive ((pushSenderState (SpmSenderState ep False True) q)\<lparr>headerDelay := 0\<rparr>)"
    for q ep
    by (simp add: spmTagExclusive_def pushSenderState_def exactlyOne_def)
  have a: "issuedTagsExclusive
             (resultState (case sendAtomicSpmRequest q s of
                             (pkt', s2) \<Rightarrow> completeSpmRequest p pkt' s2))"
    if "spmTagExclusive q" for q
    using tags_completeSpmRequest[OF tags_sendAtomicSpmRequest[OF assms that]]
    by (simp add: split_beta)
  show ?thesis
    using assms t t' a
    by (simp add: recvNocMessage_def Let_def resultState_def schedSpmRequest_def
        issuedTagsExclusive_def)
qed

lemma tags_handleNocRequest:
  assumes "issuedTagsExclusive s"
  shows "issuedTagsExclusive (resultState (handleNocRequest p pkt s))"
  using assms tags_recvNocMessage[OF assms]
  by (simp add: handleNocRequest_def recvNocMemoryRequest_def Let_def resultState_def
      split: list.splits SenderState.splits)

lemma tags_handleCpuRequest:
  assumes "issuedTagsExclusive s"
  shows "issuedTagsExclusive (resultState (snd (handleCpuRequest p pkt s)))"
proof -
  have a: "issuedTagsExclusive (s\<lparr>regFile := rf\<rparr>)" for rf
    using assms by (simp add: issuedTagsExclusive_def)
  show ?thesis
    using a tags_executeCommand[OF a]
    by (simp add: handleCpuRequest_def Let_def resultState_def schedCpuResponse_def
        schedule_def issuedTagsExclusive_def split: prod.splits)
qed

lemma tags_serviceEvent:
  assumes "issuedTagsExclusive s"
  shows "issuedTagsExclusive (resultState (serviceEvent p s))"
proof -
  have a: "issuedTagsExclusive (s\<lparr>eventQueue := q\<rparr>)" for q
    using assms by (simp add: issuedTagsExclusive_def)
  show ?thesis
    using assms tags_executeCommand[OF a] tags_incrementWritePtr[OF a] a
    by (simp add: serviceEvent_def processEvent_def finishMessageTransmission_def
        resultState_def issuedTagsExclusive_def split: list.splits prod.splits Event.splits)
qed

lemma tags_trigger:
  assumes "issuedTagsExclusive s"
  shows "issuedTagsExclusive (resultState (trigger p t s))"
  using tags_handleCpuRequest[OF assms] tags_handleNocRequest[OF assms]
    tags_completeSpmRequest[OF assms] tags_completeNocRequest[OF assms]
    tags_serviceEvent[OF assms]
  by (cases t) (simp_all add: trigger_def)

text \<open>
  C9 (tag exclusivity). The completion of a scratchpad request takes the tag off the
  packet and continues, with the packet that no longer carries it, on the local path
  when \<open>isLocalRequest\<close> alone is set and on the forwarded path when
  \<open>isForwardedRequest\<close> alone is set; when both flags or neither are set it stops with a
  failed assertion before anything has changed. The same holds for a request from the
  network and the flags \<open>isMessage\<close> and \<open>isMemoryRequest\<close>. So a completion that returns
  has seen an exclusive tag. Every entry point of the unit keeps the tags of all issued
  requests exclusive: the tags the unit creates are exclusive when the request is
  issued.
\<close>

theorem tag_exclusivity:
  "(\<not> isError pkt \<and> isResponse pkt \<and> senderState pkt = SpmSenderState ep loc fwd # rest
      \<longrightarrow>
      completeSpmRequest p pkt s =
        (if exactlyOne loc fwd then
           (if loc then completeLocalSpmRequest p (pkt\<lparr>senderState := rest\<rparr>) s
            else completeForwardedSpmRequest p (pkt\<lparr>senderState := rest\<rparr>) ep s)
         else Panic AssertionFailed s))
   \<and> (\<not> isError pkt \<and> isWrite pkt \<and> hasData pkt
        \<and> senderState pkt = NocSenderState m r # rest \<longrightarrow>
      handleNocRequest p pkt s =
        (if exactlyOne m r then
           (if m then recvNocMessage p (pkt\<lparr>senderState := rest\<rparr>) s
            else recvNocMemoryRequest p (pkt\<lparr>senderState := rest\<rparr>) s)
         else Panic AssertionFailed s))
   \<and> (completeSpmRequest p pkt s = Done s' \<longrightarrow> spmTagExclusive pkt)
   \<and> (handleNocRequest p pkt s = Done s' \<longrightarrow> nocTagExclusive pkt)
   \<and> (issuedTagsExclusive s \<longrightarrow> issuedTagsExclusive (resultState (trigger p t s)))"
proof (intro conjI impI)
  assume "\<not> isError pkt \<and> isResponse pkt
            \<and> senderState pkt = SpmSenderState ep loc fwd # rest"
  then show "completeSpmRequest p pkt s =
        (if exactlyOne loc fwd then
           (if loc then completeLocalSpmRequest p (pkt\<lparr>senderState := rest\<rparr>) s
            else completeForwardedSpmRequest p (pkt\<lparr>senderState := rest\<rparr>) ep s)
         else Panic AssertionFailed s)"
    by (auto simp: completeSpmRequest_def exactlyOne_def Let_def)
next
  assume "\<not> isError pkt \<and> isWrite pkt \<and> hasData pkt
        \<and> senderState pkt = NocSenderState m r # rest"
  then show "handleNocRequest p pkt s =
        (if exactlyOne m r then
           (if m then recvNocMessage p (pkt\<lparr>senderState := rest\<rparr>) s
            else recvNocMemoryRequest p (pkt\<lparr>senderState := rest\<rparr>) s)
         else Panic AssertionFailed s)"
    by (auto simp: handleNocRequest_def exactlyOne_def Let_def)
next
  assume "completeSpmRequest p pkt s = Done s'"
  then show "spmTagExclusive pkt"
    by (auto simp: completeSpmRequest_def spmTagExclusive_def exactlyOne_def Let_def
        split: if_splits list.splits SenderState.splits)
next
  assume "handleNocRequest p pkt s = Done s'"
  then show "nocTagExclusive pkt"
    by (auto simp: handleNocRequest_def nocTagExclusive_def exactlyOne_def Let_def
        split: if_splits list.splits SenderState.splits)
next
  assume "issuedTagsExclusive s"
  then show "issuedTagsExclusive (resultState (trigger p t s))"
    by (rule tags_trigger)
qed


theorem tag_exclusivity_witness:
  "\<not> isError (spmResponseTo (pushSenderState (SpmSenderState 2 True False)
         (generateRequest 0x1000 64 ReadReq)) (replicate 64 0xAB))
   \<and> isResponse (spmResponseTo (pushSenderState (SpmSenderState 2 True False)
         (generateRequest 0x1000 64 ReadReq)) (replicate 64 0xAB))
   \<and> senderState (spmResponseTo (pushSenderState (SpmSenderState 2 True False)
         (generateRequest 0x1000 64 ReadReq)) (replicate 64 0xAB))
        = [SpmSenderState 2 True False]
   \<and> exactlyOne True False
   \<and> completeSpmRequest scenarioParams
        (spmResponseTo (pushSenderState (SpmSenderState 2 True False)
           (generateRequest 0x1000 64 ReadReq)) (replicate 64 0xAB)) (transmitDtu 64)
      = completeLocalSpmRequest scenarioParams
          ((spmResponseTo (pushSenderState (SpmSenderState 2 True False)
              (generateRequest 0x1000 64 ReadReq)) (replicate 64 0xAB))\<lparr>senderState := []\<rparr>)
          (transmitDtu 64)
   \<and> \<not> exactlyOne True True
   \<and> handleNocRequest scenarioParams
        ((inboundFrame 0x701 [7, 0, 2, 0, 0xAA, 0xBB])
           \<lparr>senderState := [NocSenderState True True]\<rparr>) (receiveDtu 2)
      = Panic AssertionFailed (receiveDtu 2)
   \<and> issuedTagsExclusive (receiveDtu 2)
   \<and> issuedTagsExclusive (resultState (trigger atomicParams
        (NocRequest (inboundFrame 0x701 [7, 0, 2, 0, 0xAA, 0xBB])) (receiveDtu 2)))
   \<and> length (spmRequests (resultState (trigger atomicParams
        (NocRequest (inboundFrame 0x701 [7, 0, 2, 0, 0xAA, 0xBB])) (receiveDtu 2)))) = 1"
proof -
  let ?resp = "spmResponseTo (pushSenderState (SpmSenderState 2 True False)
         (generateRequest 0x1000 64 ReadReq)) (replicate 64 0xAB)"
  let ?bad = "(inboundFrame 0x701 [7, 0, 2, 0, 0xAA, 0xBB])
           \<lparr>senderState := [NocSenderState True True]\<rparr>"
  have a: "\<not> isError ?resp" "isResponse ?resp"
    "senderState ?resp = SpmSenderState 2 True False # []"
    by (simp_all add: spmResponseTo_def pushSenderState_def generateRequest_def
        makeResponse_def isResponse_def)
  have b: "\<not> isError ?bad" "isWrite ?bad" "hasData ?bad"
    "senderState ?bad = NocSenderState True True # []"
    by (simp_all add: inboundFrame_def isWrite_def hasData_def)
  have e: "exactlyOne True False" "\<not> exactlyOne True True"
    by (simp_all add: exactlyOne_def)
  have i: "issuedTagsExclusive (receiveDtu 2)"
    by (simp add: issuedTagsExclusive_def receiveDtu_def idleDtu_def)
  have n: "length (spmRequests (resultState (trigger atomicParams
        (NocRequest (inboundFrame 0x701 [7, 0, 2, 0, 0xAA, 0xBB])) (receiveDtu 2)))) = 1"
    by (simp add: trigger_def handleNocRequest_def recvNocMessage_def inboundFrame_def
        isWrite_def hasData_def Let_def atomicParams_def scenario_simps pushSenderState_def
        sendAtomicSpmRequest_def makeResponse_def completeSpmRequest_def isResponse_def
        completeForwardedSpmRequest_def)
  from tag_exclusivity[of ?resp 2 True False "[]" scenarioParams "transmitDtu 64"] a e
  have 1: "completeSpmRequest scenarioParams ?resp (transmitDtu 64)
      = completeLocalSpmRequest scenarioParams (?resp\<lparr>senderState := []\<rparr>) (transmitDtu 64)"
    by presburger
  from tag_exclusivity[of ?bad 2 True False "[]" scenarioParams "receiveDtu 2" True True] b e
  have 2: "handleNocRequest scenarioParams ?bad (receiveDtu 2)
             = Panic AssertionFailed (receiveDtu 2)"
    by presburger
  from tag_exclusivity[of ?resp 2 True False "[]" atomicParams "receiveDtu 2" True True idleDtu
         "NocRequest (inboundFrame 0x701 [7, 0, 2, 0, 0xAA, 0xBB])"] i
  have 3: "issuedTagsExclusive (resultState (trigger atomicParams
        (NocRequest (inboundFrame 0x701 [7, 0, 2, 0, 0xAA, 0xBB])) (receiveDtu 2)))"
    by blast
  from a b e i n 1 2 3 show ?thesis by blast
qed

subsection \<open>The transmit pipeline\<close>

lemma ucast_add4: "(ucast (ucast (x::32 word) + (4::64 word)) :: 32 word) = x + 4"
proof -
  have x: "unat x < 2 ^ 32" using unsigned_less[of x] by simp
  have a: "unat (ucast x :: 64 word) = unat x"
    using x by (simp add: unsigned_ucast_eq take_bit_nat_eq_self)
  have b: "unat (ucast x + (4::64 word)) = unat x + 4"
    using x a by (simp add: unat_word_ariths)
  have c: "unat (ucast (ucast x + (4::64 word)) :: 32 word) = (unat x + 4) mod 2 ^ 32"
    by (simp add: unsigned_ucast_eq b take_bit_eq_mod)
  have d: "unat (x + 4) = (unat x + 4) mod 2 ^ 32"
    by (simp add: unat_word_ariths)
  show ?thesis
    unfolding word_unat_eq_iff c d ..
qed

lemma length_readBytes: "length (readBytes m a n) = n"
  by (induction n arbitrary: a) simp_all

lemma getCommand_status:
  "getCommand p (s\<lparr>regFile := setDtuReg STATUS v (regFile s)\<rparr>) = getCommand p s"
  by (simp add: getCommand_def readDtuReg_def setDtuReg_def)

lemma executeCommand_transmit:
  assumes "transmitReady p s ep"
  shows "executeCommand p s = startMessageTransmission p ep s"
  using assms
  by (simp add: transmitReady_def executeCommand_def startOperation_def Let_def modeOf_def
      START_OPERATION_def IDLE_def TRANSMIT_MESSAGE_def RECEIVE_MESSAGE_def)

lemma startMessageTransmission_timed:
  assumes "transmitReady p s ep" and "\<not> atomicMode p"
  shows "startMessageTransmission p ep s =
           Done (schedSpmRequest
                   (pushSenderState (SpmSenderState ep True False)
                      (generateRequest (messageAddrOf s ep) (messageSizeOf s ep) ReadReq))
                   (commandToSpmRequestLatency p)
                   (s\<lparr>regFile := setDtuReg STATUS 1 (regFile s)\<rparr>))"
  using assms
  by (simp add: transmitReady_def startMessageTransmission_def Let_def messageSizeOf_def
      messageAddrOf_def)

lemma startMessageTransmission_atomic:
  assumes "transmitReady p s ep" and "atomicMode p"
  shows "startMessageTransmission p ep s =
           (case sendAtomicSpmRequest
                   (pushSenderState (SpmSenderState ep True False)
                      (generateRequest (messageAddrOf s ep) (messageSizeOf s ep) ReadReq))
                   (s\<lparr>regFile := setDtuReg STATUS 1 (regFile s)\<rparr>) of
              (pkt', s2) \<Rightarrow> completeSpmRequest p pkt' s2)"
  using assms
  by (simp add: transmitReady_def startMessageTransmission_def Let_def messageSizeOf_def
      messageAddrOf_def)

text \<open>The frame that the local completion builds from the response of the scratchpad.\<close>

lemma completeSpmRequest_local:
  assumes "\<not> isError resp" and "cmd resp = ReadResp"
    and "senderState resp = [SpmSenderState ep True False]"
    and "getSize resp = ucast (messageSizeOf s ep)"
    and "epId (getCommand p s) = ep" and "generateRequestOk p"
  shows "completeSpmRequest p resp s =
           (let frame =
                  \<lparr>cmd = WriteReq,
                   getAddr = getNocAddr p (targetCoreIdOf s ep) (targetEpIdOf s ep),
                   getSize = getSize resp + 4,
                   pktData =
                     headerBytes (MessageHeader (ucast (coreId p)) (ucast ep)
                                    (ucast (getSize resp)))
                       @ take (unat (getSize resp)) (pktData resp),
                   isError = False, senderState = [NocSenderState True False],
                   headerDelay = 0, payloadDelay = payloadDelay resp\<rparr>
            in if atomicMode p then
                 completeNocRequest p (makeResponse frame)
                   (s\<lparr>nocRequests := nocRequests s @ [(frame, Atomic)]\<rparr>)
               else
                 Done (schedNocRequest frame
                         (spmResponseToNocRequestLatency p
                            + ticksToCycles p (headerDelay resp)) s))"
  using assms
  by (simp add: completeSpmRequest_def completeLocalSpmRequest_def isResponse_def isRead_def
      Let_def messageSizeOf_def targetCoreIdOf_def targetEpIdOf_def generateRequest_def
      pushSenderState_def sizeofMessageHeader_def sendAtomicNocRequest_def ucast_add4)


lemma transmit_timed:
  assumes r: "transmitReady p s ep" and t: "\<not> atomicMode p" and q: "eventQueue s = []"
    and resp: "\<not> isError resp" "cmd resp = ReadResp"
      "senderState resp = [SpmSenderState ep True False]"
      "getSize resp = ucast (messageSizeOf s ep)"
      "length (pktData resp) = unat (getSize resp)"
  shows "\<exists>s1 rd w1.
           executeCommand p s = Done s1
           \<and> spmRequests s1 = spmRequests s @ [(rd, w1)] \<and> nocRequests s1 = nocRequests s
           \<and> cmd rd = ReadReq \<and> getAddr rd = messageAddrOf s ep
           \<and> getSize rd = ucast (messageSizeOf s ep)
           \<and> senderState rd = [SpmSenderState ep True False]
           \<and> statusOf s1 = 1
           \<and> (\<exists>s2 frame w2.
                 completeSpmRequest p resp s1 = Done s2
                 \<and> spmRequests s2 = spmRequests s1
                 \<and> nocRequests s2 = nocRequests s @ [(frame, w2)]
                 \<and> cmd frame = WriteReq
                 \<and> getAddr frame = getNocAddr p (targetCoreIdOf s ep) (targetEpIdOf s ep)
                 \<and> getSize frame = getSize resp + 4
                 \<and> pktData frame =
                      headerBytes (MessageHeader (ucast (coreId p)) (ucast ep)
                                     (ucast (getSize resp))) @ pktData resp
                 \<and> length (pktData frame) = 4 + unat (getSize resp)
                 \<and> senderState frame = [NocSenderState True False]
                 \<and> statusOf s2 = 1
                 \<and> (\<exists>s3. completeNocRequest p ack s2 = Done s3
                       \<and> (\<exists>s4. serviceEvent p s3 = Done s4
                             \<and> commandOf s4 = 0 \<and> statusOf s4 = 0
                             \<and> spmRequests s4 = spmRequests s @ [(rd, w1)]
                             \<and> nocRequests s4 = nocRequests s @ [(frame, w2)])))"
proof -
  define rd where "rd = pushSenderState (SpmSenderState ep True False)
                      (generateRequest (messageAddrOf s ep) (messageSizeOf s ep) ReadReq)"
  define s1 where "s1 = schedSpmRequest rd (commandToSpmRequestLatency p)
                          (s\<lparr>regFile := setDtuReg STATUS 1 (regFile s)\<rparr>)"
  define frame where "frame =
                  \<lparr>cmd = WriteReq,
                   getAddr = getNocAddr p (targetCoreIdOf s ep) (targetEpIdOf s ep),
                   getSize = getSize resp + 4,
                   pktData =
                     headerBytes (MessageHeader (ucast (coreId p)) (ucast ep)
                                    (ucast (getSize resp)))
                       @ take (unat (getSize resp)) (pktData resp),
                   isError = False, senderState = [NocSenderState True False],
                   headerDelay = 0, payloadDelay = payloadDelay resp\<rparr>"
  define s2 where "s2 = schedNocRequest frame
                          (spmResponseToNocRequestLatency p
                             + ticksToCycles p (headerDelay resp)) s1"
  define s3 where "s3 = schedule FinishMessageTransmissionEvent
                          (ticksToCycles p (headerDelay ack + payloadDelay ack)) s2"
  define s4 where "s4 = finishMessageTransmission (s3\<lparr>eventQueue := []\<rparr>)"
  have e1: "executeCommand p s = Done s1"
    unfolding s1_def rd_def executeCommand_transmit[OF r]
    by (rule startMessageTransmission_timed[OF r t])
  have regs1: "messageSizeOf s1 ep = messageSizeOf s ep"
    "targetCoreIdOf s1 ep = targetCoreIdOf s ep" "targetEpIdOf s1 ep = targetEpIdOf s ep"
    "getCommand p s1 = getCommand p s"
    by (simp_all add: s1_def schedSpmRequest_def messageSizeOf_def targetCoreIdOf_def
        targetEpIdOf_def readEpReg_def setDtuReg_def getCommand_def readDtuReg_def)
  from r have c1: "epId (getCommand p s1) = ep" and g: "generateRequestOk p"
    by (simp_all add: regs1 transmitReady_def)
  have e2: "completeSpmRequest p resp s1 = Done s2"
    using completeSpmRequest_local[OF resp(1,2,3) _ c1 g] resp(4) t
    by (simp add: regs1 s2_def frame_def Let_def)
  have e3: "completeNocRequest p ack s2 = Done s3"
    by (simp add: completeNocRequest_def s3_def Let_def)
  have q3: "eventQueue s3 =
              [(FinishMessageTransmissionEvent,
                ticksToCycles p (headerDelay ack + payloadDelay ack))]"
    using q by (simp add: s3_def s2_def s1_def schedule_def schedNocRequest_def
        schedSpmRequest_def)
  have e4: "serviceEvent p s3 = Done s4"
    by (simp add: serviceEvent_def q3 processEvent_def s4_def)
  have p1: "spmRequests s1 = spmRequests s @ [(rd, ClockEdge (commandToSpmRequestLatency p))]"
    "nocRequests s1 = nocRequests s" "statusOf s1 = 1"
    by (simp_all add: s1_def schedSpmRequest_def statusOf_def readDtuReg_def setDtuReg_def)
  have prd: "cmd rd = ReadReq" "getAddr rd = messageAddrOf s ep"
    "getSize rd = ucast (messageSizeOf s ep)"
    "senderState rd = [SpmSenderState ep True False]"
    by (simp_all add: rd_def pushSenderState_def generateRequest_def)
  have p2: "spmRequests s2 = spmRequests s1"
    "nocRequests s2 = nocRequests s
       @ [(frame, ClockEdge (spmResponseToNocRequestLatency p
                               + ticksToCycles p (headerDelay resp)))]"
    "statusOf s2 = 1"
    using p1 by (simp_all add: s2_def schedNocRequest_def statusOf_def)
  have pf: "cmd frame = WriteReq"
    "getAddr frame = getNocAddr p (targetCoreIdOf s ep) (targetEpIdOf s ep)"
    "getSize frame = getSize resp + 4"
    "pktData frame =
       headerBytes (MessageHeader (ucast (coreId p)) (ucast ep) (ucast (getSize resp)))
         @ pktData resp"
    "length (pktData frame) = 4 + unat (getSize resp)"
    "senderState frame = [NocSenderState True False]"
    using resp(5) by (simp_all add: frame_def headerBytes_def)
  have p4: "commandOf s4 = 0" "statusOf s4 = 0"
    "spmRequests s4 = spmRequests s @ [(rd, ClockEdge (commandToSpmRequestLatency p))]"
    "nocRequests s4 = nocRequests s
       @ [(frame, ClockEdge (spmResponseToNocRequestLatency p
                               + ticksToCycles p (headerDelay resp)))]"
    using p1 p2
    by (simp_all add: s4_def s3_def finishMessageTransmission_def schedule_def commandOf_def
        statusOf_def readDtuReg_def setDtuReg_def)
  from e1 e2 e3 e4 p1 prd p2 pf p4 show ?thesis by blast
qed
lemma transmit_atomic:
  assumes r: "transmitReady p s ep" and a: "atomicMode p" and q: "eventQueue s = []"
  shows "\<exists>s3 rd frame.
           executeCommand p s = Done s3
           \<and> spmRequests s3 = spmRequests s @ [(rd, Atomic)]
           \<and> nocRequests s3 = nocRequests s @ [(frame, Atomic)]
           \<and> cmd rd = ReadReq \<and> getAddr rd = messageAddrOf s ep
           \<and> getSize rd = ucast (messageSizeOf s ep)
           \<and> senderState rd = [SpmSenderState ep True False]
           \<and> cmd frame = WriteReq
           \<and> getAddr frame = getNocAddr p (targetCoreIdOf s ep) (targetEpIdOf s ep)
           \<and> getSize frame = getSize rd + 4
           \<and> pktData frame =
                headerBytes (MessageHeader (ucast (coreId p)) (ucast ep) (ucast (getSize rd)))
                  @ readBytes (scratchpad s) (messageAddrOf s ep) (unat (getSize rd))
           \<and> length (pktData frame) = 4 + unat (getSize rd)
           \<and> senderState frame = [NocSenderState True False]
           \<and> eventQueue s3 = [(FinishMessageTransmissionEvent, ticksToCycles p 0)]
           \<and> statusOf s3 = 1 \<and> commandOf s3 = commandOf s
           \<and> (\<exists>s4. serviceEvent p s3 = Done s4
                 \<and> commandOf s4 = 0 \<and> statusOf s4 = 0
                 \<and> spmRequests s4 = spmRequests s @ [(rd, Atomic)]
                 \<and> nocRequests s4 = nocRequests s @ [(frame, Atomic)])"
proof -
  define rd where "rd = pushSenderState (SpmSenderState ep True False)
                      (generateRequest (messageAddrOf s ep) (messageSizeOf s ep) ReadReq)"
  define payload where
    "payload = readBytes (scratchpad s) (messageAddrOf s ep) (unat (getSize rd))"
  define resp where "resp = makeResponse (rd\<lparr>pktData := payload\<rparr>)"
  define s1 where "s1 = s\<lparr>regFile := setDtuReg STATUS 1 (regFile s),
                          spmRequests := spmRequests s @ [(rd, Atomic)]\<rparr>"
  define frame where "frame =
                  \<lparr>cmd = WriteReq,
                   getAddr = getNocAddr p (targetCoreIdOf s ep) (targetEpIdOf s ep),
                   getSize = getSize resp + 4,
                   pktData =
                     headerBytes (MessageHeader (ucast (coreId p)) (ucast ep)
                                    (ucast (getSize resp)))
                       @ take (unat (getSize resp)) (pktData resp),
                   isError = False, senderState = [NocSenderState True False],
                   headerDelay = 0, payloadDelay = payloadDelay resp\<rparr>"
  define s3 where "s3 = schedule FinishMessageTransmissionEvent (ticksToCycles p 0)
                          (s1\<lparr>nocRequests := nocRequests s1 @ [(frame, Atomic)]\<rparr>)"
  define s4 where "s4 = finishMessageTransmission (s3\<lparr>eventQueue := []\<rparr>)"
  have prd: "cmd rd = ReadReq" "getAddr rd = messageAddrOf s ep"
    "getSize rd = ucast (messageSizeOf s ep)"
    "senderState rd = [SpmSenderState ep True False]"
    by (simp_all add: rd_def pushSenderState_def generateRequest_def)
  have presp: "\<not> isError resp" "cmd resp = ReadResp"
    "senderState resp = [SpmSenderState ep True False]"
    "getSize resp = ucast (messageSizeOf s ep)" "getSize resp = getSize rd"
    "pktData resp = payload" "headerDelay resp = 0" "payloadDelay resp = 0"
    by (simp_all add: resp_def makeResponse_def rd_def pushSenderState_def generateRequest_def)
  have snd: "sendAtomicSpmRequest rd (s\<lparr>regFile := setDtuReg STATUS 1 (regFile s)\<rparr>)
               = (resp, s1)"
    by (simp add: sendAtomicSpmRequest_def prd Let_def resp_def payload_def s1_def)
  have regs1: "messageSizeOf s1 ep = messageSizeOf s ep"
    "targetCoreIdOf s1 ep = targetCoreIdOf s ep" "targetEpIdOf s1 ep = targetEpIdOf s ep"
    "getCommand p s1 = getCommand p s"
    by (simp_all add: s1_def messageSizeOf_def targetCoreIdOf_def
        targetEpIdOf_def readEpReg_def setDtuReg_def getCommand_def readDtuReg_def)
  from r have c1: "epId (getCommand p s1) = ep" and g: "generateRequestOk p"
    by (simp_all add: regs1 transmitReady_def)
  have e2: "completeSpmRequest p resp s1 = Done s3"
    using completeSpmRequest_local[OF presp(1,2,3) _ c1 g] presp(4) a
    by (simp add: regs1 s3_def frame_def Let_def completeNocRequest_def makeResponse_def
        presp(8))
  have e1: "executeCommand p s = Done s3"
    unfolding executeCommand_transmit[OF r] startMessageTransmission_atomic[OF r a]
    using snd e2 by (simp add: rd_def)
  have q3: "eventQueue s3 = [(FinishMessageTransmissionEvent, ticksToCycles p 0)]"
    using q by (simp add: s3_def s1_def schedule_def)
  have e4: "serviceEvent p s3 = Done s4"
    by (simp add: serviceEvent_def q3 processEvent_def s4_def)
  have p3: "spmRequests s3 = spmRequests s @ [(rd, Atomic)]"
    "nocRequests s3 = nocRequests s @ [(frame, Atomic)]"
    "statusOf s3 = 1" "commandOf s3 = commandOf s"
    by (simp_all add: s3_def s1_def schedule_def statusOf_def commandOf_def readDtuReg_def
        setDtuReg_def)
  have lp: "length payload = unat (getSize rd)"
    by (simp add: payload_def length_readBytes)
  have pf: "cmd frame = WriteReq"
    "getAddr frame = getNocAddr p (targetCoreIdOf s ep) (targetEpIdOf s ep)"
    "getSize frame = getSize rd + 4"
    "pktData frame =
       headerBytes (MessageHeader (ucast (coreId p)) (ucast ep) (ucast (getSize rd)))
         @ readBytes (scratchpad s) (messageAddrOf s ep) (unat (getSize rd))"
    "length (pktData frame) = 4 + unat (getSize rd)"
    "senderState frame = [NocSenderState True False]"
    using lp by (simp_all add: frame_def headerBytes_def presp(5,6)) (simp add: payload_def)
  have p4: "commandOf s4 = 0" "statusOf s4 = 0"
    "spmRequests s4 = spmRequests s @ [(rd, Atomic)]"
    "nocRequests s4 = nocRequests s @ [(frame, Atomic)]"
    using p3
    by (simp_all add: s4_def finishMessageTransmission_def commandOf_def
        statusOf_def readDtuReg_def setDtuReg_def)
  from e1 e4 q3 p3 prd pf p4 show ?thesis by blast
qed
text \<open>
  C3 (transmit happy path). Let the command register hold \<open>StartOperation\<close> for a
  transmit endpoint whose message meets the preconditions, and let no event be pending.

  In timed mode the command completes and issues exactly one request to the scratchpad
  and none to the network: a read of \<open>messageSize\<close> bytes at \<open>messageAddr\<close>, tagged as a
  local request of the endpoint; the busy flag is set. When the scratchpad answers with
  the bytes of the message, the completion issues exactly one request to the network
  and none to the scratchpad: a write to \<open>getNocAddr(targetCoreId, targetEpId)\<close> of
  \<open>messageSize + 4\<close> bytes, which are the four bytes of the header (core, endpoint,
  length) followed by the payload, tagged as a message. When the network acknowledges
  the frame, the completion schedules the event that finishes the transmission; once
  the event queue has serviced it, the command register is 0 and the busy flag is clear,
  and the requests issued are still this read and this frame.

  In atomic mode the command alone issues the same read and the same frame, the payload
  being the bytes the scratchpad holds at \<open>messageAddr\<close>, and schedules the finishing
  event; once that event has been serviced, the command register is 0 and the busy flag
  is clear.
\<close>

theorem transmit_happy_path:
  "transmitReady p s ep \<and> eventQueue s = [] \<longrightarrow>
     (\<not> atomicMode p \<and> \<not> isError resp \<and> cmd resp = ReadResp
        \<and> senderState resp = [SpmSenderState ep True False]
        \<and> getSize resp = ucast (messageSizeOf s ep)
        \<and> length (pktData resp) = unat (getSize resp) \<longrightarrow>
      (\<exists>s1 rd w1.
           executeCommand p s = Done s1
           \<and> spmRequests s1 = spmRequests s @ [(rd, w1)] \<and> nocRequests s1 = nocRequests s
           \<and> cmd rd = ReadReq \<and> getAddr rd = messageAddrOf s ep
           \<and> getSize rd = ucast (messageSizeOf s ep)
           \<and> senderState rd = [SpmSenderState ep True False]
           \<and> statusOf s1 = 1
           \<and> (\<exists>s2 frame w2.
                 completeSpmRequest p resp s1 = Done s2
                 \<and> spmRequests s2 = spmRequests s1
                 \<and> nocRequests s2 = nocRequests s @ [(frame, w2)]
                 \<and> cmd frame = WriteReq
                 \<and> getAddr frame = getNocAddr p (targetCoreIdOf s ep) (targetEpIdOf s ep)
                 \<and> getSize frame = getSize resp + 4
                 \<and> pktData frame =
                      headerBytes (MessageHeader (ucast (coreId p)) (ucast ep)
                                     (ucast (getSize resp))) @ pktData resp
                 \<and> length (pktData frame) = 4 + unat (getSize resp)
                 \<and> senderState frame = [NocSenderState True False]
                 \<and> statusOf s2 = 1
                 \<and> (\<exists>s3. completeNocRequest p ack s2 = Done s3
                       \<and> (\<exists>s4. serviceEvent p s3 = Done s4
                             \<and> commandOf s4 = 0 \<and> statusOf s4 = 0
                             \<and> spmRequests s4 = spmRequests s @ [(rd, w1)]
                             \<and> nocRequests s4 = nocRequests s @ [(frame, w2)])))))
     \<and> (atomicMode p \<longrightarrow>
      (\<exists>s3 rd frame.
           executeCommand p s = Done s3
           \<and> spmRequests s3 = spmRequests s @ [(rd, Atomic)]
           \<and> nocRequests s3 = nocRequests s @ [(frame, Atomic)]
           \<and> cmd rd = ReadReq \<and> getAddr rd = messageAddrOf s ep
           \<and> getSize rd = ucast (messageSizeOf s ep)
           \<and> senderState rd = [SpmSenderState ep True False]
           \<and> cmd frame = WriteReq
           \<and> getAddr frame = getNocAddr p (targetCoreIdOf s ep) (targetEpIdOf s ep)
           \<and> getSize frame = getSize rd + 4
           \<and> pktData frame =
                headerBytes (MessageHeader (ucast (coreId p)) (ucast ep) (ucast (getSize rd)))
                  @ readBytes (scratchpad s) (messageAddrOf s ep) (unat (getSize rd))
           \<and> length (pktData frame) = 4 + unat (getSize rd)
           \<and> senderState frame = [NocSenderState True False]
           \<and> eventQueue s3 = [(FinishMessageTransmissionEvent, ticksToCycles p 0)]
           \<and> statusOf s3 = 1 \<and> commandOf s3 = commandOf s
           \<and> (\<exists>s4. serviceEvent p s3 = Done s4
                 \<and> commandOf s4 = 0 \<and> statusOf s4 = 0
                 \<and> spmRequests s4 = spmRequests s @ [(rd, Atomic)]
                 \<and> nocRequests s4 = nocRequests s @ [(frame, Atomic)])))"
proof (intro impI conjI)
  assume a: "transmitReady p s ep \<and> eventQueue s = []"
    and b: "\<not> atomicMode p \<and> \<not> isError resp \<and> cmd resp = ReadResp
        \<and> senderState resp = [SpmSenderState ep True False]
        \<and> getSize resp = ucast (messageSizeOf s ep)
        \<and> length (pktData resp) = unat (getSize resp)"
  from a have r: "transmitReady p s ep" and q: "eventQueue s = []" by blast+
  from b have t: "\<not> atomicMode p" and resp: "\<not> isError resp" "cmd resp = ReadResp"
      "senderState resp = [SpmSenderState ep True False]"
      "getSize resp = ucast (messageSizeOf s ep)"
      "length (pktData resp) = unat (getSize resp)" by blast+
  show "\<exists>s1 rd w1.
           executeCommand p s = Done s1
           \<and> spmRequests s1 = spmRequests s @ [(rd, w1)] \<and> nocRequests s1 = nocRequests s
           \<and> cmd rd = ReadReq \<and> getAddr rd = messageAddrOf s ep
           \<and> getSize rd = ucast (messageSizeOf s ep)
           \<and> senderState rd = [SpmSenderState ep True False]
           \<and> statusOf s1 = 1
           \<and> (\<exists>s2 frame w2.
                 completeSpmRequest p resp s1 = Done s2
                 \<and> spmRequests s2 = spmRequests s1
                 \<and> nocRequests s2 = nocRequests s @ [(frame, w2)]
                 \<and> cmd frame = WriteReq
                 \<and> getAddr frame = getNocAddr p (targetCoreIdOf s ep) (targetEpIdOf s ep)
                 \<and> getSize frame = getSize resp + 4
                 \<and> pktData frame =
                      headerBytes (MessageHeader (ucast (coreId p)) (ucast ep)
                                     (ucast (getSize resp))) @ pktData resp
                 \<and> length (pktData frame) = 4 + unat (getSize resp)
                 \<and> senderState frame = [NocSenderState True False]
                 \<and> statusOf s2 = 1
                 \<and> (\<exists>s3. completeNocRequest p ack s2 = Done s3
                       \<and> (\<exists>s4. serviceEvent p s3 = Done s4
                             \<and> commandOf s4 = 0 \<and> statusOf s4 = 0
                             \<and> spmRequests s4 = spmRequests s @ [(rd, w1)]
                             \<and> nocRequests s4 = nocRequests s @ [(frame, w2)])))"
    by (rule transmit_timed[OF r t q resp])
next
  assume a: "transmitReady p s ep \<and> eventQueue s = []" and m: "atomicMode p"
  from a have r: "transmitReady p s ep" and q: "eventQueue s = []" by blast+
  show "\<exists>s3 rd frame.
           executeCommand p s = Done s3
           \<and> spmRequests s3 = spmRequests s @ [(rd, Atomic)]
           \<and> nocRequests s3 = nocRequests s @ [(frame, Atomic)]
           \<and> cmd rd = ReadReq \<and> getAddr rd = messageAddrOf s ep
           \<and> getSize rd = ucast (messageSizeOf s ep)
           \<and> senderState rd = [SpmSenderState ep True False]
           \<and> cmd frame = WriteReq
           \<and> getAddr frame = getNocAddr p (targetCoreIdOf s ep) (targetEpIdOf s ep)
           \<and> getSize frame = getSize rd + 4
           \<and> pktData frame =
                headerBytes (MessageHeader (ucast (coreId p)) (ucast ep) (ucast (getSize rd)))
                  @ readBytes (scratchpad s) (messageAddrOf s ep) (unat (getSize rd))
           \<and> length (pktData frame) = 4 + unat (getSize rd)
           \<and> senderState frame = [NocSenderState True False]
           \<and> eventQueue s3 = [(FinishMessageTransmissionEvent, ticksToCycles p 0)]
           \<and> statusOf s3 = 1 \<and> commandOf s3 = commandOf s
           \<and> (\<exists>s4. serviceEvent p s3 = Done s4
                 \<and> commandOf s4 = 0 \<and> statusOf s4 = 0
                 \<and> spmRequests s4 = spmRequests s @ [(rd, Atomic)]
                 \<and> nocRequests s4 = nocRequests s @ [(frame, Atomic)])"
    by (rule transmit_atomic[OF r m q])
qed

theorem transmit_happy_path_witness:
  "transmitReady scenarioParams (transmitDtu 64) 2 \<and> eventQueue (transmitDtu 64) = []
   \<and> \<not> atomicMode scenarioParams
   \<and> messageAddrOf (transmitDtu 64) 2 = 0x1000 \<and> messageSizeOf (transmitDtu 64) 2 = 64
   \<and> \<not> isError (spmResponseTo
        (pushSenderState (SpmSenderState 2 True False) (generateRequest 0x1000 64 ReadReq))
        (replicate 64 0xAB))
   \<and> cmd (spmResponseTo
        (pushSenderState (SpmSenderState 2 True False) (generateRequest 0x1000 64 ReadReq))
        (replicate 64 0xAB)) = ReadResp
   \<and> senderState (spmResponseTo
        (pushSenderState (SpmSenderState 2 True False) (generateRequest 0x1000 64 ReadReq))
        (replicate 64 0xAB)) = [SpmSenderState 2 True False]
   \<and> getSize (spmResponseTo
        (pushSenderState (SpmSenderState 2 True False) (generateRequest 0x1000 64 ReadReq))
        (replicate 64 0xAB)) = 64
   \<and> length (pktData (spmResponseTo
        (pushSenderState (SpmSenderState 2 True False) (generateRequest 0x1000 64 ReadReq))
        (replicate 64 0xAB))) = 64
   \<and> (\<exists>s1 rd w1.
         executeCommand scenarioParams (transmitDtu 64) = Done s1
         \<and> spmRequests s1 = [(rd, w1)] \<and> nocRequests s1 = []
         \<and> cmd rd = ReadReq \<and> getAddr rd = 0x1000 \<and> getSize rd = 64
         \<and> statusOf s1 = 1
         \<and> (\<exists>s2 frame w2.
               completeSpmRequest scenarioParams (spmResponseTo
        (pushSenderState (SpmSenderState 2 True False) (generateRequest 0x1000 64 ReadReq))
        (replicate 64 0xAB)) s1 = Done s2
               \<and> spmRequests s2 = [(rd, w1)] \<and> nocRequests s2 = [(frame, w2)]
               \<and> cmd frame = WriteReq \<and> getAddr frame = getNocAddr scenarioParams 3 1
               \<and> getSize frame = 68 \<and> length (pktData frame) = 68
               \<and> senderState frame = [NocSenderState True False]
               \<and> (\<exists>s3. completeNocRequest scenarioParams (makeResponse (generateRequest 0x301 68 WriteReq)) s2 = Done s3
                     \<and> (\<exists>s4. serviceEvent scenarioParams s3 = Done s4
                           \<and> commandOf s4 = 0 \<and> statusOf s4 = 0
                           \<and> spmRequests s4 = [(rd, w1)]
                           \<and> nocRequests s4 = [(frame, w2)]))))
   \<and> transmitReady atomicParams (transmitDtu 64) 2 \<and> atomicMode atomicParams
   \<and> (\<exists>s3 rd frame.
         executeCommand atomicParams (transmitDtu 64) = Done s3
         \<and> spmRequests s3 = [(rd, Atomic)] \<and> nocRequests s3 = [(frame, Atomic)]
         \<and> cmd rd = ReadReq \<and> getAddr rd = 0x1000 \<and> getSize rd = 64
         \<and> cmd frame = WriteReq \<and> getAddr frame = getNocAddr atomicParams 3 1
         \<and> getSize frame = 68 \<and> length (pktData frame) = 68
         \<and> (\<exists>s4. serviceEvent atomicParams s3 = Done s4
               \<and> commandOf s4 = 0 \<and> statusOf s4 = 0))"
proof -
  let ?s = "transmitDtu 64"
  let ?resp = "(spmResponseTo
        (pushSenderState (SpmSenderState 2 True False) (generateRequest 0x1000 64 ReadReq))
        (replicate 64 0xAB))"
  let ?ack = "(makeResponse (generateRequest 0x301 68 WriteReq))"
  have ready: "transmitReady scenarioParams ?s 2" "transmitReady atomicParams ?s 2"
    by (simp_all add: transmitReady_def atomicParams_def transmitDtu_def cmd_simps
        scenarioParams_def modeOf_def messageSizeOf_def readEpReg_def setEpReg_def
        TRANSMIT_MESSAGE_def sizeofMessageHeader_def generateRequestOk_def idleDtu_def)
  have q: "eventQueue ?s = []" "spmRequests ?s = []" "nocRequests ?s = []"
    by (simp_all add: transmitDtu_def idleDtu_def)
  have mode: "\<not> atomicMode scenarioParams" "atomicMode atomicParams"
    by (simp_all add: atomicParams_def scenarioParams_def)
  have regs: "messageAddrOf ?s 2 = 0x1000" "messageSizeOf ?s 2 = 64"
    "targetCoreIdOf ?s 2 = 3" "targetEpIdOf ?s 2 = 1"
    by (simp_all add: transmit_simps messageAddrOf_def targetCoreIdOf_def targetEpIdOf_def)
  have resp: "\<not> isError ?resp" "cmd ?resp = ReadResp"
    "senderState ?resp = [SpmSenderState 2 True False]"
    "getSize ?resp = 64" "length (pktData ?resp) = 64"
    by (simp_all add: spmResponseTo_def makeResponse_def pushSenderState_def
        generateRequest_def)
  have resp': "getSize ?resp = ucast (messageSizeOf ?s 2)"
    "length (pktData ?resp) = unat (getSize ?resp)"
    by (simp_all add: resp regs)
  from transmit_happy_path[of scenarioParams ?s 2 ?resp ?ack] ready(1) q(1) mode(1)
    resp(1,2,3) resp'
  obtain s1 rd w1 s2 frame w2 s3 s4 where
    t: "executeCommand scenarioParams ?s = Done s1"
      "spmRequests s1 = spmRequests ?s @ [(rd, w1)]" "nocRequests s1 = nocRequests ?s"
      "cmd rd = ReadReq" "getAddr rd = messageAddrOf ?s 2"
      "getSize rd = ucast (messageSizeOf ?s 2)" "statusOf s1 = 1"
      "completeSpmRequest scenarioParams ?resp s1 = Done s2"
      "spmRequests s2 = spmRequests s1" "nocRequests s2 = nocRequests ?s @ [(frame, w2)]"
      "cmd frame = WriteReq"
      "getAddr frame = getNocAddr scenarioParams (targetCoreIdOf ?s 2) (targetEpIdOf ?s 2)"
      "getSize frame = getSize ?resp + 4" "length (pktData frame) = 4 + unat (getSize ?resp)"
      "senderState frame = [NocSenderState True False]"
      "completeNocRequest scenarioParams ?ack s2 = Done s3"
      "serviceEvent scenarioParams s3 = Done s4" "commandOf s4 = 0" "statusOf s4 = 0"
      "spmRequests s4 = spmRequests ?s @ [(rd, w1)]"
      "nocRequests s4 = nocRequests ?s @ [(frame, w2)]"
    by blast
  have t': "spmRequests s1 = [(rd, w1)]" "nocRequests s1 = []" "getAddr rd = 0x1000"
    "getSize rd = 64" "spmRequests s2 = [(rd, w1)]" "nocRequests s2 = [(frame, w2)]"
    "getAddr frame = getNocAddr scenarioParams 3 1" "getSize frame = 68"
    "length (pktData frame) = 68" "spmRequests s4 = [(rd, w1)]"
    "nocRequests s4 = [(frame, w2)]"
    using t by (simp_all add: q regs resp)
  from transmit_happy_path[of atomicParams ?s 2] ready(2) q(1) mode(2)
  obtain a3 ard aframe a4 where
    a: "executeCommand atomicParams ?s = Done a3"
      "spmRequests a3 = spmRequests ?s @ [(ard, Atomic)]"
      "nocRequests a3 = nocRequests ?s @ [(aframe, Atomic)]"
      "cmd ard = ReadReq" "getAddr ard = messageAddrOf ?s 2"
      "getSize ard = ucast (messageSizeOf ?s 2)"
      "cmd aframe = WriteReq"
      "getAddr aframe = getNocAddr atomicParams (targetCoreIdOf ?s 2) (targetEpIdOf ?s 2)"
      "getSize aframe = getSize ard + 4" "length (pktData aframe) = 4 + unat (getSize ard)"
      "serviceEvent atomicParams a3 = Done a4" "commandOf a4 = 0" "statusOf a4 = 0"
    by blast
  have a': "spmRequests a3 = [(ard, Atomic)]" "nocRequests a3 = [(aframe, Atomic)]"
    "getAddr ard = 0x1000" "getSize ard = 64"
    "getAddr aframe = getNocAddr atomicParams 3 1" "getSize aframe = 68"
    "length (pktData aframe) = 68"
    using a by (simp_all add: q regs)
  have timed: "\<exists>s1 rd w1.
         executeCommand scenarioParams (transmitDtu 64) = Done s1
         \<and> spmRequests s1 = [(rd, w1)] \<and> nocRequests s1 = []
         \<and> cmd rd = ReadReq \<and> getAddr rd = 0x1000 \<and> getSize rd = 64
         \<and> statusOf s1 = 1
         \<and> (\<exists>s2 frame w2.
               completeSpmRequest scenarioParams ?resp s1 = Done s2
               \<and> spmRequests s2 = [(rd, w1)] \<and> nocRequests s2 = [(frame, w2)]
               \<and> cmd frame = WriteReq \<and> getAddr frame = getNocAddr scenarioParams 3 1
               \<and> getSize frame = 68 \<and> length (pktData frame) = 68
               \<and> senderState frame = [NocSenderState True False]
               \<and> (\<exists>s3. completeNocRequest scenarioParams ?ack s2 = Done s3
                     \<and> (\<exists>s4. serviceEvent scenarioParams s3 = Done s4
                           \<and> commandOf s4 = 0 \<and> statusOf s4 = 0
                           \<and> spmRequests s4 = [(rd, w1)]
                           \<and> nocRequests s4 = [(frame, w2)])))"
    using t(1,4,7,8,11,15,16,17,18,19) t' by blast
  have atomic: "\<exists>s3 rd frame.
         executeCommand atomicParams (transmitDtu 64) = Done s3
         \<and> spmRequests s3 = [(rd, Atomic)] \<and> nocRequests s3 = [(frame, Atomic)]
         \<and> cmd rd = ReadReq \<and> getAddr rd = 0x1000 \<and> getSize rd = 64
         \<and> cmd frame = WriteReq \<and> getAddr frame = getNocAddr atomicParams 3 1
         \<and> getSize frame = 68 \<and> length (pktData frame) = 68
         \<and> (\<exists>s4. serviceEvent atomicParams s3 = Done s4
               \<and> commandOf s4 = 0 \<and> statusOf s4 = 0)"
    using a(1,4,7,11,12,13) a' by blast
  from ready q(1) mode regs(1,2) resp timed atomic show ?thesis by blast
qed

subsection \<open>Atomic mode\<close>

text \<open>
  C2 (zero-delay mode). In atomic mode the receive pipeline runs to its end inside the
  call that delivers the frame and leaves the event queue empty. The transmit pipeline
  does not: for the command \<open>StartOperation\<close> on endpoint 2 of \<open>transmitDtu 64\<close>, with no
  event pending before, \<open>executeCommand\<close> returns with the event that finishes the
  transmission pending on the event queue, the busy flag still set and the command
  register still holding the command. \<open>completeNocRequest\<close> schedules that event in
  either mode, where \<open>completeForwardedSpmRequest\<close> and \<open>handleCpuRequest\<close> call the
  next leg directly in atomic mode.
\<close>

theorem atomic_transmit_leaves_event_pending:
  "atomicMode atomicParams \<and> eventQueue (transmitDtu 64) = []
   \<and> commandOf (transmitDtu 64) = 9
   \<and> (\<exists>s'. executeCommand atomicParams (transmitDtu 64) = Done s'
         \<and> eventQueue s' = [(FinishMessageTransmissionEvent, 0)]
         \<and> statusOf s' = 1 \<and> commandOf s' = 9)
   \<and> eventQueue (receiveDtu 2) = []
   \<and> (\<exists>s'. handleNocRequest atomicParams (inboundFrame 0x701 [7, 0, 2, 0, 0xAA, 0xBB])
               (receiveDtu 2) = Done s'
         \<and> eventQueue s' = [] \<and> messageCountOf s' 1 = 3)"
proof -
  have ready: "transmitReady atomicParams (transmitDtu 64) 2"
    by (simp add: transmitReady_def atomicParams_def transmitDtu_def cmd_simps
        scenarioParams_def modeOf_def messageSizeOf_def readEpReg_def setEpReg_def
        TRANSMIT_MESSAGE_def sizeofMessageHeader_def generateRequestOk_def idleDtu_def)
  have m: "atomicMode atomicParams" and q: "eventQueue (transmitDtu 64) = []"
    and c: "commandOf (transmitDtu 64) = 9" and z: "ticksToCycles atomicParams 0 = 0"
    and q2: "eventQueue (receiveDtu 2) = []"
    by (simp_all add: atomicParams_def scenarioParams_def transmitDtu_def idleDtu_def
        commandOf_def readDtuReg_def setDtuReg_def receiveDtu_def)
  from transmit_atomic[OF ready m q]
  have 1: "\<exists>s'. executeCommand atomicParams (transmitDtu 64) = Done s'
         \<and> eventQueue s' = [(FinishMessageTransmissionEvent, 0)]
         \<and> statusOf s' = 1 \<and> commandOf s' = 9"
    unfolding z c by blast
  have 2: "\<exists>s'. handleNocRequest atomicParams (inboundFrame 0x701 [7, 0, 2, 0, 0xAA, 0xBB])
               (receiveDtu 2) = Done s'
         \<and> eventQueue s' = [] \<and> messageCountOf s' 1 = 3"
    by (simp add: handleNocRequest_def recvNocMessage_def inboundFrame_def
        isWrite_def hasData_def Let_def atomicParams_def scenario_simps pushSenderState_def
        sendAtomicSpmRequest_def makeResponse_def completeSpmRequest_def isResponse_def
        completeForwardedSpmRequest_def)
  from m q c 1 q2 2 show ?thesis by blast
qed

end
